theory Spec2Isabelle
  imports Main "HOL-Library.Sublist"
begin

section \<open>Errors, panics and strings\<close>

text \<open>
  Go error values. \<open>errNoExistingRecord\<close> is the package's sentinel (line 190), compared
  by identity in \<open>Present\<close> and \<open>CleanUp\<close>; every other error value (made by
  \<open>fmt.Errorf\<close>, or handed over by a library) is \<open>Err\<close> with its text.
\<close>

datatype error = errNoExistingRecord | Err string

fun Error :: "error \<Rightarrow> string" where
  "Error errNoExistingRecord = ''no existing record found''"
| "Error (Err s) = s"

text \<open>A call either returns a value or panics (a nil pointer dereference at run time).\<close>

datatype 'a outcome = Return 'a | Panic

text \<open>\<open>strings.HasSuffix\<close> and \<open>strings.TrimSuffix\<close> of the Go standard library, on byte strings.\<close>

definition HasSuffix :: "string \<Rightarrow> string \<Rightarrow> bool" where
  "HasSuffix s suf =
     (length s \<ge> length suf \<and> drop (length s - length suf) s = suf)"

definition TrimSuffix :: "string \<Rightarrow> string \<Rightarrow> string" where
  "TrimSuffix s suf =
     (if HasSuffix s suf then take (length s - length suf) s else s)"

text \<open>
  Modelled from the spec: \<open>util.UnFqdn\<close> belongs to the cert-manager library, which is not
  part of the source tree; the specification describes it as removing the trailing dot of
  a fully-qualified name.
\<close>

definition UnFqdn :: "string \<Rightarrow> string" where
  "UnFqdn name =
     (let n = length name
      in if n \<noteq> 0 \<and> name ! (n - 1) = CHR ''.'' then take (n - 1) name else name)"

text \<open>\<open>strconv.Itoa\<close> and the verb \<open>%d\<close>: the decimal numeral of an integer.\<close>

fun digits :: "nat \<Rightarrow> string" where
  "digits n =
     (if n < 10 then [''0123456789'' ! n]
      else digits (n div 10) @ [''0123456789'' ! (n mod 10)])"

declare digits.simps [simp del]

definition Itoa :: "int \<Rightarrow> string" where
  "Itoa i = (if i < 0 then CHR ''-'' # digits (nat (- i)) else digits (nat i))"

text \<open>
  Well-formed UTF-8, as \<open>encoding/json\<close> enforces it on every Go string it encodes or
  decodes. \<open>runeLen\<close> is the size \<open>utf8.DecodeRuneInString\<close> reports for the sequence at
  the head of a string, with 0 standing for the library's \<open>(RuneError, 1)\<close>: the first byte
  selects the length and the range of the second byte, the other bytes are continuation
  bytes. \<open>coerceUTF8\<close> keeps each well-formed sequence and replaces each byte that starts
  none by U+FFFD, the bytes EF BF BD.
\<close>

definition cont :: "nat \<Rightarrow> nat \<Rightarrow> string \<Rightarrow> bool" where
  "cont lo hi s = (case s of [] \<Rightarrow> False | d # _ \<Rightarrow> lo \<le> of_char d \<and> (of_char d :: nat) \<le> hi)"

definition runeLen :: "string \<Rightarrow> nat" where
  "runeLen s =
     (case s of
        [] \<Rightarrow> 0
      | c # cs \<Rightarrow>
          (let b = (of_char c :: nat)
           in if b < 0x80 then 1
              else if 0xC2 \<le> b \<and> b \<le> 0xDF then
                (if cont 0x80 0xBF cs then 2 else 0)
              else if 0xE0 \<le> b \<and> b \<le> 0xEF then
                (if cont (if b = 0xE0 then 0xA0 else 0x80) (if b = 0xED then 0x9F else 0xBF) cs
                    \<and> cont 0x80 0xBF (drop 1 cs)
                 then 3 else 0)
              else if 0xF0 \<le> b \<and> b \<le> 0xF4 then
                (if cont (if b = 0xF0 then 0x90 else 0x80) (if b = 0xF4 then 0x8F else 0xBF) cs
                    \<and> cont 0x80 0xBF (drop 1 cs) \<and> cont 0x80 0xBF (drop 2 cs)
                 then 4 else 0)
              else 0))"

fun coerceUTF8 :: "string \<Rightarrow> string" where
  "coerceUTF8 [] = []"
| "coerceUTF8 (c # cs) =
     (let n = runeLen (c # cs)
      in if n = 0 then [CHR 0xEF, CHR 0xBF, CHR 0xBD] @ coerceUTF8 cs
         else (c # take (n - 1) cs) @ coerceUTF8 (drop (n - 1) cs))"

declare coerceUTF8.simps(2) [simp del]

section \<open>Data model\<close>

text \<open>The structs of lines 275 to 298. A field that two structs share carries a prefix.\<close>

record dnsRecord =
  ID :: int
  Name :: string
  TTL :: string
  Type :: string
  Data :: string
  ZoneID :: string

text \<open>A struct literal leaves the fields it does not name at their zero values.\<close>

definition dnsRecord_zero :: dnsRecord where
  "dnsRecord_zero =
     \<lparr>ID = 0, Name = [], TTL = [], Type = [], Data = [], ZoneID = []\<rparr>"

record dnsZoneZone =
  zone_ID :: int
  zone_Name :: string
  zone_Records :: "dnsRecord list"

record dnsZone =
  Zone :: dnsZoneZone

record dnsPostRecord =
  post_Zone :: string
  post_Records :: "dnsRecord list"

record DNSProvider =
  dns01Nameservers :: "string list"
  authKey :: string

text \<open>The response envelope declared inside \<open>makeRequest\<close> (lines 208 to 226). The message
  lists hold pointers, so an entry may be nil.\<close>

record APIMessage =
  Code :: int
  Message :: string

record APIResponse =
  ClientTransactionId :: string
  ServerTransactionId :: string
  Errors :: "APIMessage option list"
  Warnings :: "APIMessage option list"
  Success :: "APIMessage option list"
  Status :: string
  resp_Data :: string

section \<open>JSON documents sent to the provider\<close>

text \<open>
  \<open>json.Marshal\<close> is modelled up to concrete syntax: it yields the document as a tree, with
  the members of an object in the order of the struct's fields. The tags of \<open>dnsRecord\<close>
  give \<open>omitempty\<close> to \<open>id\<close>, \<open>ttl\<close> and \<open>zone_id\<close> only. For these struct types the
  encoder has no failing case; the result type keeps the error the callers test. A
  \<open>JString\<close> holds the string the document denotes, so the escapes of the encoder do not
  show, while its coercion of a Go string to well-formed UTF-8 does.
\<close>

datatype json = JString string | JNumber int | JArray "json list" | JObject "(string \<times> json) list"

definition json_dnsRecord :: "dnsRecord \<Rightarrow> json" where
  "json_dnsRecord r = JObject (
     (if ID r = 0 then [] else [(''id'', JNumber (ID r))]) @
     [(''name'', JString (coerceUTF8 (Name r)))] @
     (if TTL r = [] then [] else [(''ttl'', JString (coerceUTF8 (TTL r)))]) @
     [(''type'', JString (coerceUTF8 (Type r))), (''data'', JString (coerceUTF8 (Data r)))] @
     (if ZoneID r = [] then [] else [(''zone_id'', JString (coerceUTF8 (ZoneID r)))]))"

definition Marshal_dnsPostRecord :: "dnsPostRecord \<Rightarrow> error + json" where
  "Marshal_dnsPostRecord p =
     Inr (JObject [(''zone'', JString (coerceUTF8 (post_Zone p))),
                   (''records'', JArray (map json_dnsRecord (post_Records p)))])"

definition Marshal_zoneRequest :: "string \<Rightarrow> error + json" where
  "Marshal_zoneRequest z = Inr (JObject [(''zone'', JString (coerceUTF8 z))])"

section \<open>The provider and the libraries around it\<close>

record request =
  Method :: string
  URL :: string
  Query :: "(string \<times> string) list"
  Header :: "(string \<times> string) list"
  Body :: json

text \<open>
  What the code calls and does not define: the zone lookup \<open>util.FindZoneByFqdn\<close>, the
  HTTP round trip \<open>client.Do\<close> against a provider in state \<open>'s\<close> (it answers with the bytes
  of a response body, or fails), the two JSON decoders, and the user agent constant.
\<close>

record 's env =
  FindZoneByFqdn :: "string \<Rightarrow> string list \<Rightarrow> error + string"
  Do :: "'s \<Rightarrow> request \<Rightarrow> (error + string) \<times> 's"
  Decode :: "string \<Rightarrow> error + APIResponse"
  Unmarshal :: "string \<Rightarrow> error + dnsZone"
  CertManagerUserAgent :: string

text \<open>
  \<open>json.Unmarshal\<close> leaves in the struct it fills only well-formed UTF-8: the decoder
  replaces every ill-formed byte of a string literal by U+FFFD. Whatever the decoder of the
  environment yields for the zone is taken up to that coercion. The envelope's decoder is
  taken as it is: its payload is raw bytes, and nothing below depends on the
  well-formedness of its message texts.
\<close>

definition coerce_dnsRecord :: "dnsRecord \<Rightarrow> dnsRecord" where
  "coerce_dnsRecord r =
     \<lparr>ID = ID r, Name = coerceUTF8 (Name r), TTL = coerceUTF8 (TTL r),
      Type = coerceUTF8 (Type r), Data = coerceUTF8 (Data r), ZoneID = coerceUTF8 (ZoneID r)\<rparr>"

definition coerce_dnsZone :: "dnsZone \<Rightarrow> dnsZone" where
  "coerce_dnsZone z =
     \<lparr>Zone = \<lparr>zone_ID = zone_ID (Zone z), zone_Name = coerceUTF8 (zone_Name (Zone z)),
              zone_Records = map coerce_dnsRecord (zone_Records (Zone z))\<rparr>\<rparr>"

definition Unmarshal_dnsZone :: "'s env \<Rightarrow> string \<Rightarrow> error + dnsZone" where
  "Unmarshal_dnsZone env result =
     (case Unmarshal env result of
        Inl err \<Rightarrow> Inl err
      | Inr hostedZone \<Rightarrow> Inr (coerce_dnsZone hostedZone))"

text \<open>The world a call runs in: the provider's state and the requests sent so far.\<close>

record 's world =
  server :: 's
  sent :: "request list"

definition APIURL :: string where
  "APIURL = ''https://connect.nicapi.eu/api/v1''"

section \<open>makeRequest\<close>

text \<open>The loop of lines 264 to 266: it appends one line per error message and
  dereferences each pointer.\<close>

fun errStr_loop :: "APIMessage option list \<Rightarrow> string \<Rightarrow> string outcome" where
  "errStr_loop [] errStr = Return errStr"
| "errStr_loop (None # rest) errStr = Panic"
| "errStr_loop (Some apiErr # rest) errStr =
     errStr_loop rest
       (errStr @ [CHR 0x09] @ '' Error: '' @ Itoa (Code apiErr) @ '': '' @ Message apiErr)"

text \<open>Lines 261 to 272: the decoded envelope becomes the payload or an error.\<close>

definition unwrap :: "APIResponse \<Rightarrow> (error + string) outcome" where
  "unwrap r =
     (if Status r \<noteq> ''success'' then
        (if length (Errors r) > 0 then
           (case errStr_loop (Errors r) [] of
              Panic \<Rightarrow> Panic
            | Return errStr \<Rightarrow> Return (Inl (Err (''API Error '' @ [CHR 0x0A] @ errStr))))
         else Return (Inl (Err ''API error'')))
      else Return (Inr (resp_Data r)))"

text \<open>Lines 228 to 238: the request. With the three constant methods and paths of this
  package \<open>http.NewRequest\<close> does not fail. The diagnostic prints of lines 240, 241 and
  259 write to standard output only and are left out.\<close>

definition newRequest :: "'s env \<Rightarrow> DNSProvider \<Rightarrow> string \<Rightarrow> string \<Rightarrow> json \<Rightarrow> request" where
  "newRequest env c method uri body =
     \<lparr>Method = method, URL = APIURL @ uri,
      Query = [(''authToken'', authKey c)],
      Header = [(''User-Agent'', CertManagerUserAgent env),
                (''Content-Type'', ''application/json'')],
      Body = body\<rparr>"

definition makeRequest ::
  "'s env \<Rightarrow> DNSProvider \<Rightarrow> string \<Rightarrow> string \<Rightarrow> json \<Rightarrow> 's world
     \<Rightarrow> (error + string) outcome \<times> 's world" where
  "makeRequest env c method uri body w =
     (let req = newRequest env c method uri body
      in case Do env (server w) req of
           (Inl err, s') \<Rightarrow>
             (Return (Inl (Err (''error querying API -> '' @ Error err))),
              \<lparr>server = s', sent = sent w @ [req]\<rparr>)
         | (Inr resp, s') \<Rightarrow>
             (case Decode env resp of
                Inl err \<Rightarrow> (Return (Inl err), \<lparr>server = s', sent = sent w @ [req]\<rparr>)
              | Inr r \<Rightarrow> (unwrap r, \<lparr>server = s', sent = sent w @ [req]\<rparr>)))"

section \<open>Zone fetch and record lookup\<close>

text \<open>
  The relative name of the challenge record. The source writes the expression
  \<open>strings.TrimSuffix(util.UnFqdn(fqdn), fmt.Sprintf(".%s", zone.Zone.Name))\<close> three times
  (lines 66, 140 and 194) and binds it to \<open>recordName\<close> in \<open>Present\<close>.
\<close>

definition recordName :: "dnsZone \<Rightarrow> string \<Rightarrow> string" where
  "recordName zone fqdn = TrimSuffix (UnFqdn fqdn) (''.'' @ zone_Name (Zone zone))"

definition getHostedZone ::
  "'s env \<Rightarrow> DNSProvider \<Rightarrow> string \<Rightarrow> 's world \<Rightarrow> (error + dnsZone) outcome \<times> 's world" where
  "getHostedZone env c fqdn w =
     (case FindZoneByFqdn env fqdn (dns01Nameservers c) of
        Inl err \<Rightarrow> (Return (Inl err), w)
      | Inr authZone \<Rightarrow>
          (case Marshal_zoneRequest (UnFqdn authZone) of
             Inl err \<Rightarrow> (Return (Inl err), w)
           | Inr body \<Rightarrow>
               (case makeRequest env c ''GET'' ''/dns/zones/show'' body w of
                  (Panic, w') \<Rightarrow> (Panic, w')
                | (Return (Inl err), w') \<Rightarrow> (Return (Inl err), w')
                | (Return (Inr result), w') \<Rightarrow>
                    (case Unmarshal_dnsZone env result of
                       Inl err \<Rightarrow> (Return (Inl err), w')
                     | Inr hostedZone \<Rightarrow> (Return (Inr hostedZone), w')))))"

text \<open>The loop of lines 196 to 200, and \<open>findTxtRecord\<close> with its pair of results as
  in the source: a record pointer (nil is \<open>None\<close>) and an error (nil is \<open>None\<close>).\<close>

fun findTxtRecord_loop :: "dnsRecord list \<Rightarrow> string \<Rightarrow> dnsRecord option \<times> error option" where
  "findTxtRecord_loop [] name = (None, Some errNoExistingRecord)"
| "findTxtRecord_loop (rec # rest) name =
     (if Name rec = name then (Some rec, None) else findTxtRecord_loop rest name)"

definition findTxtRecord :: "dnsZone \<Rightarrow> string \<Rightarrow> dnsRecord option \<times> error option" where
  "findTxtRecord zone fqdn =
     (let name = recordName zone fqdn
      in findTxtRecord_loop (zone_Records (Zone zone)) name)"

section \<open>Present and CleanUp\<close>

text \<open>Lines 94 to 117 of \<open>Present\<close>: the create request.\<close>

definition Present_add ::
  "'s env \<Rightarrow> DNSProvider \<Rightarrow> dnsZone \<Rightarrow> string \<Rightarrow> string \<Rightarrow> 's world
     \<Rightarrow> error option outcome \<times> 's world" where
  "Present_add env c zone name value w =
     (let recCol = \<lparr>post_Zone = zone_Name (Zone zone),
                    post_Records = [dnsRecord_zero\<lparr>Name := name,
                                      TTL := Itoa (120 * 60), Type := ''TXT'', Data := value\<rparr>]\<rparr>
      in case Marshal_dnsPostRecord recCol of
           Inl err \<Rightarrow> (Return (Some err), w)
         | Inr body \<Rightarrow>
             (case makeRequest env c ''POST'' ''/dns/zones/records/add'' body w of
                (Panic, w') \<Rightarrow> (Panic, w')
              | (Return (Inl err), w') \<Rightarrow> (Return (Some err), w')
              | (Return (Inr _), w') \<Rightarrow> (Return None, w')))"

definition Present ::
  "'s env \<Rightarrow> DNSProvider \<Rightarrow> string \<Rightarrow> string \<Rightarrow> string \<Rightarrow> 's world
     \<Rightarrow> error option outcome \<times> 's world" where
  "Present env c domain fqdn value w =
     (case getHostedZone env c fqdn w of
        (Panic, w1) \<Rightarrow> (Panic, w1)
      | (Return (Inl err), w1) \<Rightarrow> (Return (Some err), w1)
      | (Return (Inr zone), w1) \<Rightarrow>
          (case findTxtRecord zone fqdn of
             (record, err) \<Rightarrow>
               if err \<noteq> None \<and> err \<noteq> Some errNoExistingRecord then (Return err, w1)
               else
                 let name = recordName zone fqdn
                 in (case record of
                       None \<Rightarrow> Present_add env c zone name value w1
                     | Some found \<Rightarrow>
                         if Data found = value then (Return None, w1)
                         else
                           (case Marshal_dnsPostRecord
                                   \<lparr>post_Zone = zone_Name (Zone zone),
                                    post_Records = [dnsRecord_zero\<lparr>Name := name\<rparr>]\<rparr> of
                              Inl err \<Rightarrow> (Return (Some err), w1)
                            | Inr body \<Rightarrow>
                                (case makeRequest env c ''DELETE''
                                        ''/dns/zones/records/delete'' body w1 of
                                   (Panic, w2) \<Rightarrow> (Panic, w2)
                                 | (Return (Inl err), w2) \<Rightarrow> (Return (Some err), w2)
                                 | (Return (Inr _), w2) \<Rightarrow>
                                     Present_add env c zone name value w2)))))"

definition CleanUp ::
  "'s env \<Rightarrow> DNSProvider \<Rightarrow> string \<Rightarrow> string \<Rightarrow> string \<Rightarrow> 's world
     \<Rightarrow> error option outcome \<times> 's world" where
  "CleanUp env c domain fqdn value w =
     (case getHostedZone env c fqdn w of
        (Panic, w1) \<Rightarrow> (Panic, w1)
      | (Return (Inl err), w1) \<Rightarrow> (Return (Some err), w1)
      | (Return (Inr zone), w1) \<Rightarrow>
          (case findTxtRecord zone fqdn of
             (_, err) \<Rightarrow>
               if err = Some errNoExistingRecord then (Return None, w1)
               else if err \<noteq> None then (Return err, w1)
               else
                 (case Marshal_dnsPostRecord
                         \<lparr>post_Zone = zone_Name (Zone zone),
                          post_Records = [dnsRecord_zero\<lparr>Name := recordName zone fqdn\<rparr>]\<rparr> of
                    Inl err \<Rightarrow> (Return (Some err), w1)
                  | Inr body \<Rightarrow>
                      (case makeRequest env c ''DELETE'' ''/dns/zones/records/delete'' body w1 of
                         (Panic, w2) \<Rightarrow> (Panic, w2)
                       | (Return (Inl err), w2) \<Rightarrow> (Return (Some err), w2)
                       | (Return (Inr _), w2) \<Rightarrow> (Return None, w2)))))"

section \<open>Vocabulary of the properties\<close>

text \<open>The requests a call has issued: those sent between its initial and its final world.\<close>

definition issued :: "'s world \<Rightarrow> 's world \<Rightarrow> request list" where
  "issued w w' = drop (length (sent w)) (sent w')"

text \<open>A call succeeded when it returned a payload and a nil error.\<close>

fun succeeded :: "(error + string) outcome \<Rightarrow> bool" where
  "succeeded (Return (Inr _)) = True"
| "succeeded (Return (Inl _)) = False"
| "succeeded Panic = False"

text \<open>The two documents \<open>json.Marshal\<close> makes of the struct literals of lines 74 to 81
  (and 136 to 143) and of lines 94 to 105, their strings coerced to well-formed UTF-8.\<close>

definition delete_document :: "string \<Rightarrow> string \<Rightarrow> json" where
  "delete_document zoneName name =
     JObject [(''zone'', JString (coerceUTF8 zoneName)),
              (''records'', JArray [JObject [(''name'', JString (coerceUTF8 name)),
                                             (''type'', JString []),
                                             (''data'', JString [])]])]"

definition add_document :: "string \<Rightarrow> string \<Rightarrow> string \<Rightarrow> json" where
  "add_document zoneName name value =
     JObject [(''zone'', JString (coerceUTF8 zoneName)),
              (''records'', JArray [JObject [(''name'', JString (coerceUTF8 name)),
                                             (''ttl'', JString ''7200''),
                                             (''type'', JString ''TXT''),
                                             (''data'', JString (coerceUTF8 value))]])]"

section \<open>A scripted provider for concrete runs\<close>

text \<open>
  The provider answers with the bodies of a script, one per request, and times out when
  the script is exhausted. The zone lookup finds \<open>example.com.\<close>; the decoders know four
  bodies and one payload, which decodes to the zone given.
\<close>

definition fixture_envelope :: "string \<Rightarrow> APIMessage option list \<Rightarrow> string \<Rightarrow> APIResponse" where
  "fixture_envelope st errs payload =
     \<lparr>ClientTransactionId = [], ServerTransactionId = ''tx'',
      Errors = errs, Warnings = [], Success = [], Status = st, resp_Data = payload\<rparr>"

definition fixture_Decode :: "string \<Rightarrow> error + APIResponse" where
  "fixture_Decode body =
     (if body = ''zone'' then Inr (fixture_envelope ''success'' [] ''zone'')
      else if body = ''ok'' then Inr (fixture_envelope ''success'' [] ''{}'')
      else if body = ''invalid zone'' then
        Inr (fixture_envelope ''error'' [Some \<lparr>Code = 1001, Message = ''invalid zone''\<rparr>] [])
      else if body = ''null'' then Inr (fixture_envelope ''error'' [None] [])
      else Inl (Err ''invalid character''))"

definition fixture_env :: "dnsZone \<Rightarrow> (string list) env" where
  "fixture_env zone =
     \<lparr>FindZoneByFqdn = (\<lambda>fqdn nameservers. Inr ''example.com.''),
      Do = (\<lambda>s req. case s of [] \<Rightarrow> (Inl (Err ''timeout''), []) | b # bs \<Rightarrow> (Inr b, bs)),
      Decode = fixture_Decode,
      Unmarshal = (\<lambda>payload. if payload = ''zone'' then Inr zone
                              else Inl (Err ''unexpected end of JSON input'')),
      CertManagerUserAgent = ''cert-manager''\<rparr>"

definition fixture_provider :: DNSProvider where
  "fixture_provider = \<lparr>dns01Nameservers = [''1.1.1.1:53''], authKey = ''key''\<rparr>"

definition fixture_world :: "string list \<Rightarrow> (string list) world" where
  "fixture_world script = \<lparr>server = script, sent = []\<rparr>"

definition fixture_record :: "string \<Rightarrow> string \<Rightarrow> string \<Rightarrow> dnsRecord" where
  "fixture_record name ty data =
     \<lparr>ID = 7, Name = name, TTL = ''7200'', Type = ty, Data = data, ZoneID = ''1''\<rparr>"

definition fixture_zone :: "dnsRecord list \<Rightarrow> dnsZone" where
  "fixture_zone records =
     \<lparr>Zone = \<lparr>zone_ID = 1, zone_Name = ''example.com'', zone_Records = records\<rparr>\<rparr>"

section \<open>Auxiliary facts\<close>

lemma coerceUTF8_ascii_Cons:
  "(of_char c :: nat) < 0x80 \<Longrightarrow> coerceUTF8 (c # cs) = c # coerceUTF8 cs"
  by (simp add: coerceUTF8.simps(2) runeLen_def)

lemma coerceUTF8_ascii: "\<forall>c \<in> set s. (of_char c :: nat) < 0x80 \<Longrightarrow> coerceUTF8 s = s"
  by (induction s) (simp_all add: coerceUTF8_ascii_Cons)

lemma cont_Cons: "cont lo hi s \<Longrightarrow> \<exists>d ds. s = d # ds"
  by (cases s) (simp_all add: cont_def)

lemma cont_head: "cont lo hi (d # ds) \<longleftrightarrow> lo \<le> of_char d \<and> (of_char d :: nat) \<le> hi"
  by (simp add: cont_def)

lemma runeLen_values: "runeLen s = 0 \<or> runeLen s = 1 \<or> runeLen s = 2 \<or> runeLen s = 3 \<or> runeLen s = 4"
  by (simp add: runeLen_def Let_def split: list.splits)

lemma runeLen_1: "runeLen (c # cs) = 1 \<longleftrightarrow> (of_char c :: nat) < 0x80"
  by (simp add: runeLen_def Let_def)

lemma runeLen_2:
  "runeLen (c # cs) = 2 \<longleftrightarrow>
     0xC2 \<le> (of_char c :: nat) \<and> (of_char c :: nat) \<le> 0xDF \<and> cont 0x80 0xBF cs"
  by (simp add: runeLen_def Let_def)

lemma runeLen_3:
  "runeLen (c # cs) = 3 \<longleftrightarrow>
     0xE0 \<le> (of_char c :: nat) \<and> (of_char c :: nat) \<le> 0xEF
     \<and> cont (if (of_char c :: nat) = 0xE0 then 0xA0 else 0x80)
             (if (of_char c :: nat) = 0xED then 0x9F else 0xBF) cs
     \<and> cont 0x80 0xBF (drop 1 cs)"
  by (auto simp: runeLen_def Let_def)

lemma runeLen_4:
  "runeLen (c # cs) = 4 \<longleftrightarrow>
     0xF0 \<le> (of_char c :: nat) \<and> (of_char c :: nat) \<le> 0xF4
     \<and> cont (if (of_char c :: nat) = 0xF0 then 0x90 else 0x80)
             (if (of_char c :: nat) = 0xF4 then 0x8F else 0xBF) cs
     \<and> cont 0x80 0xBF (drop 1 cs) \<and> cont 0x80 0xBF (drop 2 cs)"
  by (auto simp: runeLen_def Let_def)

lemma runeLen_prefix:
  assumes "0 < runeLen (c # cs)"
  shows "length cs \<ge> runeLen (c # cs) - 1
     \<and> runeLen (c # take (runeLen (c # cs) - 1) cs @ ys) = runeLen (c # cs)"
proof -
  consider "runeLen (c # cs) = 1" | "runeLen (c # cs) = 2" | "runeLen (c # cs) = 3"
    | "runeLen (c # cs) = 4"
    using assms runeLen_values [of "c # cs"] by presburger
  then show ?thesis
  proof cases
    case 1
    then have "runeLen (c # ys) = 1"
      unfolding runeLen_1 .
    with 1 show ?thesis by simp
  next
    case 2
    then obtain d ds where cs: "cs = d # ds"
      unfolding runeLen_2 by (blast dest: cont_Cons)
    from 2 have "runeLen (c # d # ys) = 2"
      unfolding runeLen_2 cs cont_head .
    with 2 cs show ?thesis by simp
  next
    case 3
    then obtain d ds where cs: "cs = d # ds"
      unfolding runeLen_3 by (blast dest: cont_Cons)
    with 3 obtain e es where ds: "ds = e # es"
      unfolding runeLen_3 by (auto dest: cont_Cons)
    from 3 have "runeLen (c # d # e # ys) = 3"
      unfolding runeLen_3 cs ds by (simp add: cont_head)
    with 3 cs ds show ?thesis by simp
  next
    case 4
    then obtain d ds where cs: "cs = d # ds"
      unfolding runeLen_4 by (blast dest: cont_Cons)
    with 4 obtain e es where ds: "ds = e # es"
      unfolding runeLen_4 by (auto dest: cont_Cons)
    with 4 cs obtain f fs where es: "es = f # fs"
      unfolding runeLen_4 by (auto dest: cont_Cons)
    from 4 have "runeLen (c # d # e # f # ys) = 4"
      unfolding runeLen_4 cs ds es by (simp add: cont_head)
    with 4 cs ds es show ?thesis by simp
  qed
qed

lemma coerceUTF8_rune:
  assumes "0 < runeLen (c # cs)"
  shows "coerceUTF8 ((c # take (runeLen (c # cs) - 1) cs) @ ys) =
           (c # take (runeLen (c # cs) - 1) cs) @ coerceUTF8 ys"
proof -
  let ?k = "runeLen (c # cs) - 1"
  from runeLen_prefix [OF assms, of ys]
  have len: "?k \<le> length cs" and same: "runeLen (c # take ?k cs @ ys) = runeLen (c # cs)"
    by simp_all
  have t: "take ?k (take ?k cs @ ys) = take ?k cs" using len by simp
  have d: "drop ?k (take ?k cs @ ys) = ys" using len by simp
  have "coerceUTF8 (c # (take ?k cs @ ys)) = (c # take ?k cs) @ coerceUTF8 ys"
    unfolding coerceUTF8.simps(2) [of c "take ?k cs @ ys"] Let_def same t d
    using assms by simp
  then show ?thesis by simp
qed

lemma coerceUTF8_replacement:
  "coerceUTF8 ([CHR 0xEF, CHR 0xBF, CHR 0xBD] @ ys) = [CHR 0xEF, CHR 0xBF, CHR 0xBD] @ coerceUTF8 ys"
  by (simp add: coerceUTF8.simps(2) runeLen_def cont_def)

lemma coerceUTF8_idem: "coerceUTF8 (coerceUTF8 s) = coerceUTF8 s"
proof (induction s rule: coerceUTF8.induct)
  case 1
  show ?case by simp
next
  case (2 c cs)
  show ?case
  proof (cases "runeLen (c # cs) = 0")
    case True
    with 2 show ?thesis
      using coerceUTF8_replacement [of "coerceUTF8 cs"]
      by (simp add: coerceUTF8.simps(2) [of c cs])
  next
    case False
    then have pos: "0 < runeLen (c # cs)" by simp
    from 2 False have IH: "coerceUTF8 (coerceUTF8 (drop (runeLen (c # cs) - 1) cs)) =
       coerceUTF8 (drop (runeLen (c # cs) - 1) cs)"
      by simp
    have "coerceUTF8 (c # cs) = (c # take (runeLen (c # cs) - 1) cs) @
            coerceUTF8 (drop (runeLen (c # cs) - 1) cs)"
      using False by (simp add: coerceUTF8.simps(2) [of c cs] Let_def)
    then show ?thesis
      using coerceUTF8_rune [OF pos, of "coerceUTF8 (drop (runeLen (c # cs) - 1) cs)"] IH
      by simp
  qed
qed

lemma coerce_dnsZone_idem: "coerce_dnsZone (coerce_dnsZone z) = coerce_dnsZone z"
  by (simp add: coerce_dnsZone_def coerce_dnsRecord_def coerceUTF8_idem)

lemma coerce_dnsZone_fixed:
  assumes "coerce_dnsZone z = z"
  shows "coerceUTF8 (zone_Name (Zone z)) = zone_Name (Zone z)"
    and "rec \<in> set (zone_Records (Zone z)) \<Longrightarrow> coerceUTF8 (Name rec) = Name rec"
proof -
  from assms have name: "zone_Name (Zone z) = coerceUTF8 (zone_Name (Zone z))"
    and recs: "zone_Records (Zone z) = map coerce_dnsRecord (zone_Records (Zone z))"
    by (metis coerce_dnsZone_def dnsZone.select_convs(1) dnsZoneZone.select_convs(2),
        metis coerce_dnsZone_def dnsZone.select_convs(1) dnsZoneZone.select_convs(3))
  from name show "coerceUTF8 (zone_Name (Zone z)) = zone_Name (Zone z)" by simp
  assume "rec \<in> set (zone_Records (Zone z))"
  with recs obtain r where "rec = coerce_dnsRecord r"
    by (metis imageE list.set_map)
  then show "coerceUTF8 (Name rec) = Name rec"
    by (simp add: coerce_dnsRecord_def coerceUTF8_idem)
qed

lemma TrimSuffix_append: "TrimSuffix (r @ suf) suf = r"
  by (simp add: TrimSuffix_def HasSuffix_def)

lemma HasSuffix_iff: "HasSuffix s suf \<longleftrightarrow> suffix suf s"
  unfolding HasSuffix_def suffix_def
  by (metis append_eq_conv_conj append_take_drop_id diff_add_inverse2 le_add2 length_append)

lemma TrimSuffix_no_suffix: "\<not> suffix suf s \<Longrightarrow> TrimSuffix s suf = s"
  by (simp add: TrimSuffix_def HasSuffix_iff)

lemma UnFqdn_dot: "UnFqdn (u @ ''.'') = u"
  by (simp add: UnFqdn_def nth_append)

lemma UnFqdn_spec:
  "UnFqdn name = (if name \<noteq> [] \<and> last name = CHR ''.'' then butlast name else name)"
  by (cases name rule: rev_cases) (simp_all add: UnFqdn_def nth_append butlast_conv_take)

lemma findTxtRecord_loop_find:
  "findTxtRecord_loop rs n =
     (case find (\<lambda>rec. Name rec = n) rs of
        None \<Rightarrow> (None, Some errNoExistingRecord)
      | Some rec \<Rightarrow> (Some rec, None))"
  by (induction rs) simp_all

lemma makeRequest_sent:
  "makeRequest env c m u b w = (res, w') \<Longrightarrow> sent w' = sent w @ [newRequest env c m u b]"
  by (auto simp: makeRequest_def Let_def split: prod.splits sum.splits)

lemma issued_step: "sent w' = sent w @ rs \<Longrightarrow> issued w w' = rs"
  by (simp add: issued_def)

lemma UnFqdn_onto: "\<exists>authZone. UnFqdn authZone = name"
  using UnFqdn_dot [of name] by blast

lemma getHostedZone_Return:
  assumes "getHostedZone env c fqdn w = (Return (Inr zone), w1)"
  shows "\<exists>authZone. sent w1 = sent w @ [newRequest env c ''GET'' ''/dns/zones/show''
                                  (JObject [(''zone'', JString (UnFqdn authZone))])]"
proof -
  from assms obtain a where
    "sent w1 = sent w @ [newRequest env c ''GET'' ''/dns/zones/show''
                            (JObject [(''zone'', JString (coerceUTF8 (UnFqdn a)))])]"
    by (auto simp: getHostedZone_def Marshal_zoneRequest_def
             split: sum.splits prod.splits outcome.splits dest: makeRequest_sent)
  with UnFqdn_onto [of "coerceUTF8 (UnFqdn a)"] show ?thesis by metis
qed

lemma getHostedZone_coerced:
  assumes "getHostedZone env c fqdn w = (Return (Inr zone), w1)"
  shows "coerce_dnsZone zone = zone"
  using assms
  by (auto simp: getHostedZone_def Marshal_zoneRequest_def Unmarshal_dnsZone_def
        coerce_dnsZone_idem split: sum.splits prod.splits outcome.splits)

lemma Itoa_7200_numeral: "Itoa 7200 = ''7200''"
  by (simp add: Itoa_def digits.simps)

lemma Marshal_delete_document:
  "Marshal_dnsPostRecord \<lparr>post_Zone = z, post_Records = [dnsRecord_zero\<lparr>Name := n\<rparr>]\<rparr> =
     Inr (delete_document z n)"
  by (simp add: Marshal_dnsPostRecord_def json_dnsRecord_def dnsRecord_zero_def
        delete_document_def)

lemma Marshal_add_document:
  "Marshal_dnsPostRecord
     \<lparr>post_Zone = z,
      post_Records = [dnsRecord_zero\<lparr>Name := n, TTL := ''7200'',
                                       Type := ''TXT'', Data := v\<rparr>]\<rparr> =
     Inr (add_document z n v)"
  by (simp add: Marshal_dnsPostRecord_def json_dnsRecord_def dnsRecord_zero_def
        add_document_def coerceUTF8_ascii)

lemma Present_add_unfold:
  "Present_add env c zone n v w =
     (case makeRequest env c ''POST'' ''/dns/zones/records/add''
             (add_document (zone_Name (Zone zone)) n v) w of
        (Panic, w') \<Rightarrow> (Panic, w')
      | (Return (Inl err), w') \<Rightarrow> (Return (Some err), w')
      | (Return (Inr x), w') \<Rightarrow> (Return None, w'))"
  by (simp add: Present_add_def Itoa_7200_numeral Marshal_add_document)

lemma Present_add_sent:
  "sent (snd (Present_add env c zone n v w)) =
     sent w @ [newRequest env c ''POST'' ''/dns/zones/records/add''
                 (add_document (zone_Name (Zone zone)) n v)]"
  using makeRequest_sent [of env c "''POST''" "''/dns/zones/records/add''"
      "add_document (zone_Name (Zone zone)) n v" w]
  by (auto simp: Present_add_unfold split: prod.splits outcome.splits sum.splits)

lemma Present_add_success:
  "fst (Present_add env c zone n v w) = Return None \<longleftrightarrow>
     succeeded (fst (makeRequest env c ''POST'' ''/dns/zones/records/add''
                       (add_document (zone_Name (Zone zone)) n v) w))"
  by (auto simp: Present_add_unfold split: prod.splits outcome.splits sum.splits)

lemma Present_unfold:
  assumes "getHostedZone env c fqdn w = (Return (Inr zone), w1)"
  shows "Present env c domain fqdn value w =
     (case find (\<lambda>rec. Name rec = recordName zone fqdn) (zone_Records (Zone zone)) of
        None \<Rightarrow> Present_add env c zone (recordName zone fqdn) value w1
      | Some found \<Rightarrow>
          if Data found = value then (Return None, w1)
          else (case makeRequest env c ''DELETE'' ''/dns/zones/records/delete''
                       (delete_document (zone_Name (Zone zone)) (recordName zone fqdn)) w1 of
                  (Panic, w2) \<Rightarrow> (Panic, w2)
                | (Return (Inl err), w2) \<Rightarrow> (Return (Some err), w2)
                | (Return (Inr x), w2) \<Rightarrow>
                    Present_add env c zone (recordName zone fqdn) value w2))"
  using assms
  by (simp add: Present_def findTxtRecord_def findTxtRecord_loop_find Marshal_delete_document
        Let_def split: option.splits)

lemma CleanUp_unfold:
  assumes "getHostedZone env c fqdn w = (Return (Inr zone), w1)"
  shows "CleanUp env c domain fqdn value w =
     (case find (\<lambda>rec. Name rec = recordName zone fqdn) (zone_Records (Zone zone)) of
        None \<Rightarrow> (Return None, w1)
      | Some found \<Rightarrow>
          (case makeRequest env c ''DELETE'' ''/dns/zones/records/delete''
                  (delete_document (zone_Name (Zone zone)) (recordName zone fqdn)) w1 of
             (Panic, w2) \<Rightarrow> (Panic, w2)
           | (Return (Inl err), w2) \<Rightarrow> (Return (Some err), w2)
           | (Return (Inr x), w2) \<Rightarrow> (Return None, w2)))"
  using assms
  by (simp add: CleanUp_def findTxtRecord_def findTxtRecord_loop_find Marshal_delete_document
        split: option.splits)

lemma Present_without_zone:
  "(\<exists>zone w1. getHostedZone env c fqdn w = (Return (Inr zone), w1)) \<or>
   snd (Present env c domain fqdn value w) = snd (getHostedZone env c fqdn w)"
  by (cases "getHostedZone env c fqdn w")
     (auto simp: Present_def split: outcome.splits sum.splits)

lemma CleanUp_without_zone:
  "(\<exists>zone w1. getHostedZone env c fqdn w = (Return (Inr zone), w1)) \<or>
   snd (CleanUp env c domain fqdn value w) = snd (getHostedZone env c fqdn w)"
  by (cases "getHostedZone env c fqdn w")
     (auto simp: CleanUp_def split: outcome.splits sum.splits)

lemma getHostedZone_sent_any:
  "sent (snd (getHostedZone env c fqdn w)) = sent w \<or>
   (\<exists>authZone. sent (snd (getHostedZone env c fqdn w)) =
        sent w @ [newRequest env c ''GET'' ''/dns/zones/show''
                    (JObject [(''zone'', JString (UnFqdn authZone))])])"
proof -
  have "sent (snd (getHostedZone env c fqdn w)) = sent w \<or>
   (\<exists>a. sent (snd (getHostedZone env c fqdn w)) =
        sent w @ [newRequest env c ''GET'' ''/dns/zones/show''
                    (JObject [(''zone'', JString (coerceUTF8 (UnFqdn a)))])])"
    by (auto simp: getHostedZone_def Marshal_zoneRequest_def
             split: sum.splits prod.splits outcome.splits dest: makeRequest_sent)
  then show ?thesis
    using UnFqdn_onto by metis
qed

lemma coerce_fixture_record:
  "coerce_dnsRecord (fixture_record n t d) =
     fixture_record (coerceUTF8 n) (coerceUTF8 t) (coerceUTF8 d)"
  by (simp add: coerce_dnsRecord_def fixture_record_def coerceUTF8_ascii)

lemma coerce_fixture_zone:
  "coerce_dnsZone (fixture_zone rs) = fixture_zone (map coerce_dnsRecord rs)"
  by (simp add: coerce_dnsZone_def fixture_zone_def coerceUTF8_ascii)

lemmas fixture_coerce = coerce_fixture_zone coerce_fixture_record coerceUTF8_ascii

lemma fixture_getHostedZone:
  assumes "coerce_dnsZone Z = Z"
  shows "getHostedZone (fixture_env Z) fixture_provider fqdn
           \<lparr>server = ''zone'' # script, sent = tr\<rparr> =
     (Return (Inr Z),
      \<lparr>server = script,
       sent = tr @ [newRequest (fixture_env Z) fixture_provider ''GET'' ''/dns/zones/show''
                     (JObject [(''zone'', JString ''example.com'')])]\<rparr>)"
  using assms
  by (simp add: getHostedZone_def fixture_env_def Marshal_zoneRequest_def UnFqdn_def
        makeRequest_def fixture_Decode_def fixture_envelope_def unwrap_def
        Unmarshal_dnsZone_def coerceUTF8_ascii)

lemma fixture_makeRequest_ok:
  "makeRequest (fixture_env Z) fixture_provider m u b \<lparr>server = ''ok'' # script, sent = tr\<rparr> =
     (Return (Inr ''{}''),
      \<lparr>server = script, sent = tr @ [newRequest (fixture_env Z) fixture_provider m u b]\<rparr>)"
  by (simp add: fixture_env_def makeRequest_def fixture_Decode_def fixture_envelope_def
        unwrap_def)

lemma fixture_makeRequest_invalid:
  "makeRequest (fixture_env Z) fixture_provider m u b
       \<lparr>server = ''invalid zone'' # script, sent = tr\<rparr> =
     (Return (Inl (Err (''API Error '' @ [CHR 0x0A, CHR 0x09] @ '' Error: 1001: invalid zone''))),
      \<lparr>server = script, sent = tr @ [newRequest (fixture_env Z) fixture_provider m u b]\<rparr>)"
  by (simp add: fixture_env_def makeRequest_def fixture_Decode_def fixture_envelope_def
        unwrap_def Itoa_def digits.simps)

lemma fixture_makeRequest_null:
  "makeRequest (fixture_env Z) fixture_provider m u b \<lparr>server = ''null'' # script, sent = tr\<rparr> =
     (Panic,
      \<lparr>server = script, sent = tr @ [newRequest (fixture_env Z) fixture_provider m u b]\<rparr>)"
  by (simp add: fixture_env_def makeRequest_def fixture_Decode_def fixture_envelope_def
        unwrap_def)

lemma fixture_recordName:
  "recordName (fixture_zone rs) ''_acme-challenge.example.com.'' = ''_acme-challenge''"
  by (simp add: fixture_zone_def recordName_def UnFqdn_def TrimSuffix_def HasSuffix_def)

lemma fixture_zone_sel:
  "zone_Name (Zone (fixture_zone rs)) = ''example.com''"
  "zone_Records (Zone (fixture_zone rs)) = rs"
  by (simp_all add: fixture_zone_def)

lemma fixture_record_sel:
  "Name (fixture_record n t d) = n" "Data (fixture_record n t d) = d"
  "Type (fixture_record n t d) = t"
  by (simp_all add: fixture_record_def)

lemma Present_sent_after_fetch:
  assumes "getHostedZone env c fqdn w = (Return (Inr zone), w1)"
  shows "sent (snd (Present env c domain fqdn value w)) = sent w1 @
     (case find (\<lambda>rec. Name rec = recordName zone fqdn) (zone_Records (Zone zone)) of
        None \<Rightarrow> [newRequest env c ''POST'' ''/dns/zones/records/add''
                   (add_document (zone_Name (Zone zone)) (recordName zone fqdn) value)]
      | Some found \<Rightarrow>
          if Data found = value then []
          else if succeeded (fst (makeRequest env c ''DELETE'' ''/dns/zones/records/delete''
                     (delete_document (zone_Name (Zone zone)) (recordName zone fqdn)) w1))
          then [newRequest env c ''DELETE'' ''/dns/zones/records/delete''
                  (delete_document (zone_Name (Zone zone)) (recordName zone fqdn)),
                newRequest env c ''POST'' ''/dns/zones/records/add''
                  (add_document (zone_Name (Zone zone)) (recordName zone fqdn) value)]
          else [newRequest env c ''DELETE'' ''/dns/zones/records/delete''
                  (delete_document (zone_Name (Zone zone)) (recordName zone fqdn))])"
proof (cases "find (\<lambda>rec. Name rec = recordName zone fqdn) (zone_Records (Zone zone))")
  case None
  then show ?thesis
    by (simp add: Present_unfold [OF assms] Present_add_sent)
next
  case (Some found)
  show ?thesis
  proof (cases "Data found = value")
    case True
    with Some show ?thesis by (simp add: Present_unfold [OF assms])
  next
    case False
    obtain res w2 where del: "makeRequest env c ''DELETE'' ''/dns/zones/records/delete''
        (delete_document (zone_Name (Zone zone)) (recordName zone fqdn)) w1 = (res, w2)"
      by (cases "makeRequest env c ''DELETE'' ''/dns/zones/records/delete''
        (delete_document (zone_Name (Zone zone)) (recordName zone fqdn)) w1")
    have w2: "sent w2 = sent w1 @ [newRequest env c ''DELETE'' ''/dns/zones/records/delete''
        (delete_document (zone_Name (Zone zone)) (recordName zone fqdn))]"
      using makeRequest_sent [OF del] .
    show ?thesis
    proof (cases "succeeded res")
      case True
      then obtain x where "res = Return (Inr x)"
        by (cases res rule: succeeded.cases) simp_all
      with Some False del w2 show ?thesis
        by (simp add: Present_unfold [OF assms] Present_add_sent)
    next
      case False
      then have "res = Panic \<or> (\<exists>err. res = Return (Inl err))"
        by (cases res rule: succeeded.cases) simp_all
      with Some \<open>Data found \<noteq> value\<close> del w2 show ?thesis
        by (auto simp: Present_unfold [OF assms])
    qed
  qed
qed

lemma Present_result_after_delete:
  assumes "getHostedZone env c fqdn w = (Return (Inr zone), w1)"
    and "find (\<lambda>rec. Name rec = recordName zone fqdn) (zone_Records (Zone zone)) = Some found"
    and "Data found \<noteq> value"
  shows "fst (Present env c domain fqdn value w) = Return None \<longleftrightarrow>
     succeeded (fst (makeRequest env c ''DELETE'' ''/dns/zones/records/delete''
                  (delete_document (zone_Name (Zone zone)) (recordName zone fqdn)) w1)) \<and>
     succeeded (fst (makeRequest env c ''POST'' ''/dns/zones/records/add''
                  (add_document (zone_Name (Zone zone)) (recordName zone fqdn) value)
                  (snd (makeRequest env c ''DELETE'' ''/dns/zones/records/delete''
                     (delete_document (zone_Name (Zone zone)) (recordName zone fqdn)) w1))))"
proof -
  obtain res w2 where del: "makeRequest env c ''DELETE'' ''/dns/zones/records/delete''
      (delete_document (zone_Name (Zone zone)) (recordName zone fqdn)) w1 = (res, w2)"
    by (cases "makeRequest env c ''DELETE'' ''/dns/zones/records/delete''
      (delete_document (zone_Name (Zone zone)) (recordName zone fqdn)) w1")
  show ?thesis
  proof (cases res rule: succeeded.cases)
    case (1 x)
    with assms(2,3) del show ?thesis
      by (simp add: Present_unfold [OF assms(1)] Present_add_success)
  next
    case (2 err)
    with assms(2,3) del show ?thesis
      by (simp add: Present_unfold [OF assms(1)])
  next
    case 3
    with assms(2,3) del show ?thesis
      by (simp add: Present_unfold [OF assms(1)])
  qed
qed

lemma CleanUp_sent_after_fetch:
  assumes "getHostedZone env c fqdn w = (Return (Inr zone), w1)"
  shows "sent (snd (CleanUp env c domain fqdn value w)) = sent w1 @
     (case find (\<lambda>rec. Name rec = recordName zone fqdn) (zone_Records (Zone zone)) of
        None \<Rightarrow> []
      | Some found \<Rightarrow> [newRequest env c ''DELETE'' ''/dns/zones/records/delete''
                          (delete_document (zone_Name (Zone zone)) (recordName zone fqdn))])"
proof (cases "find (\<lambda>rec. Name rec = recordName zone fqdn) (zone_Records (Zone zone))")
  case None
  then show ?thesis by (simp add: CleanUp_unfold [OF assms])
next
  case (Some found)
  obtain res w2 where del: "makeRequest env c ''DELETE'' ''/dns/zones/records/delete''
      (delete_document (zone_Name (Zone zone)) (recordName zone fqdn)) w1 = (res, w2)"
    by (cases "makeRequest env c ''DELETE'' ''/dns/zones/records/delete''
      (delete_document (zone_Name (Zone zone)) (recordName zone fqdn)) w1")
  from makeRequest_sent [OF del] Some del show ?thesis
    by (auto simp: CleanUp_unfold [OF assms] split: outcome.splits sum.splits)
qed

lemma APIURL_paths:
  "APIURL @ ''/dns/zones/show'' \<noteq> APIURL @ ''/dns/zones/records/delete''"
  "APIURL @ ''/dns/zones/show'' \<noteq> APIURL @ ''/dns/zones/records/add''"
  "APIURL @ ''/dns/zones/records/add'' \<noteq> APIURL @ ''/dns/zones/records/delete''"
  by simp_all

lemma URL_newRequest: "URL (newRequest env c m u b) = APIURL @ u"
  by (simp add: newRequest_def)

lemma Method_newRequest: "Method (newRequest env c m u b) = m"
  by (simp add: newRequest_def)

lemma Body_newRequest: "Body (newRequest env c m u b) = b"
  by (simp add: newRequest_def)

lemma getHostedZone_issued_show:
  "r \<in> set (issued w (snd (getHostedZone env c fqdn w))) \<Longrightarrow> URL r = APIURL @ ''/dns/zones/show''"
  using getHostedZone_sent_any [of env c fqdn w]
  by (auto simp: issued_def URL_newRequest)

lemma Present_issued_cases:
  assumes "r \<in> set (issued w (snd (Present env c domain fqdn value w)))"
  shows "URL r = APIURL @ ''/dns/zones/show'' \<or>
     (\<exists>zone w1. getHostedZone env c fqdn w = (Return (Inr zone), w1) \<and>
        (r = newRequest env c ''DELETE'' ''/dns/zones/records/delete''
               (delete_document (zone_Name (Zone zone)) (recordName zone fqdn))
           \<and> find (\<lambda>rec. Name rec = recordName zone fqdn) (zone_Records (Zone zone)) \<noteq> None \<or>
         r = newRequest env c ''POST'' ''/dns/zones/records/add''
               (add_document (zone_Name (Zone zone)) (recordName zone fqdn) value)))"
proof (cases "\<exists>zone w1. getHostedZone env c fqdn w = (Return (Inr zone), w1)")
  case False
  with Present_without_zone [of env c fqdn w domain "value"]
  have "snd (Present env c domain fqdn value w) = snd (getHostedZone env c fqdn w)"
    by blast
  with assms show ?thesis
    by (simp add: getHostedZone_issued_show)
next
  case True
  then obtain zone w1 where fetch: "getHostedZone env c fqdn w = (Return (Inr zone), w1)"
    by blast
  obtain authZone where w1: "sent w1 = sent w @ [newRequest env c ''GET'' ''/dns/zones/show''
                            (JObject [(''zone'', JString (UnFqdn authZone))])]"
    using getHostedZone_Return [OF fetch] by blast
  from assms have "r \<in> set (drop (length (sent w)) (sent (snd (Present env c domain fqdn value w))))"
    by (simp add: issued_def)
  then have "r = newRequest env c ''GET'' ''/dns/zones/show''
                   (JObject [(''zone'', JString (UnFqdn authZone))]) \<or>
     r = newRequest env c ''DELETE'' ''/dns/zones/records/delete''
               (delete_document (zone_Name (Zone zone)) (recordName zone fqdn))
       \<and> find (\<lambda>rec. Name rec = recordName zone fqdn) (zone_Records (Zone zone)) \<noteq> None \<or>
     r = newRequest env c ''POST'' ''/dns/zones/records/add''
               (add_document (zone_Name (Zone zone)) (recordName zone fqdn) value)"
    unfolding Present_sent_after_fetch [OF fetch] w1
    by (auto split: option.splits if_splits)
  with fetch show ?thesis
    by (auto simp: URL_newRequest)
qed

lemma CleanUp_issued_cases:
  assumes "r \<in> set (issued w (snd (CleanUp env c domain fqdn value w)))"
  shows "URL r = APIURL @ ''/dns/zones/show'' \<or>
     (\<exists>zone w1. getHostedZone env c fqdn w = (Return (Inr zone), w1) \<and>
        r = newRequest env c ''DELETE'' ''/dns/zones/records/delete''
               (delete_document (zone_Name (Zone zone)) (recordName zone fqdn)) \<and>
        find (\<lambda>rec. Name rec = recordName zone fqdn) (zone_Records (Zone zone)) \<noteq> None)"
proof (cases "\<exists>zone w1. getHostedZone env c fqdn w = (Return (Inr zone), w1)")
  case False
  with CleanUp_without_zone [of env c fqdn w domain "value"]
  have "snd (CleanUp env c domain fqdn value w) = snd (getHostedZone env c fqdn w)"
    by blast
  with assms show ?thesis
    by (simp add: getHostedZone_issued_show)
next
  case True
  then obtain zone w1 where fetch: "getHostedZone env c fqdn w = (Return (Inr zone), w1)"
    by blast
  obtain authZone where w1: "sent w1 = sent w @ [newRequest env c ''GET'' ''/dns/zones/show''
                            (JObject [(''zone'', JString (UnFqdn authZone))])]"
    using getHostedZone_Return [OF fetch] by blast
  from assms have "r \<in> set (drop (length (sent w)) (sent (snd (CleanUp env c domain fqdn value w))))"
    by (simp add: issued_def)
  then have "r = newRequest env c ''GET'' ''/dns/zones/show''
                   (JObject [(''zone'', JString (UnFqdn authZone))]) \<or>
     r = newRequest env c ''DELETE'' ''/dns/zones/records/delete''
               (delete_document (zone_Name (Zone zone)) (recordName zone fqdn))
       \<and> find (\<lambda>rec. Name rec = recordName zone fqdn) (zone_Records (Zone zone)) \<noteq> None"
    unfolding CleanUp_sent_after_fetch [OF fetch] w1
    by (cases "find (\<lambda>rec. Name rec = recordName zone fqdn) (zone_Records (Zone zone))")
       auto
  with fetch show ?thesis
    by (auto simp: URL_newRequest)
qed

lemma delete_document_found:
  assumes "getHostedZone env c fqdn w = (Return (Inr zone), w1)"
    and "find (\<lambda>rec. Name rec = recordName zone fqdn) (zone_Records (Zone zone)) \<noteq> None"
  shows "delete_document (zone_Name (Zone zone)) (recordName zone fqdn) =
     JObject [(''zone'', JString (zone_Name (Zone zone))),
              (''records'', JArray [JObject [(''name'', JString (recordName zone fqdn)),
                                             (''type'', JString []),
                                             (''data'', JString [])]])]"
proof -
  note fixed = coerce_dnsZone_fixed [OF getHostedZone_coerced [OF assms(1)]]
  from assms(2) obtain found where
    "found \<in> set (zone_Records (Zone zone))" and "Name found = recordName zone fqdn"
    by (auto simp: find_None_iff)
  with fixed(2) [of found] have "coerceUTF8 (recordName zone fqdn) = recordName zone fqdn"
    by simp
  with fixed(1) show ?thesis
    by (simp add: delete_document_def)
qed

lemma add_document_fetched:
  assumes "getHostedZone env c fqdn w = (Return (Inr zone), w1)"
  shows "add_document (zone_Name (Zone zone)) name value =
     JObject [(''zone'', JString (zone_Name (Zone zone))),
              (''records'', JArray [JObject [(''name'', JString (coerceUTF8 name)),
                                             (''ttl'', JString ''7200''),
                                             (''type'', JString ''TXT''),
                                             (''data'', JString (coerceUTF8 value))]])]"
  using coerce_dnsZone_fixed(1) [OF getHostedZone_coerced [OF assms]]
  by (simp add: add_document_def)

lemma findTxtRecord_loop_retag:
  "fst (findTxtRecord_loop (map (\<lambda>r. r\<lparr>Type := ty r, Data := da r\<rparr>) rs) n) =
     map_option (\<lambda>r. r\<lparr>Type := ty r, Data := da r\<rparr>) (fst (findTxtRecord_loop rs n))"
  by (induction rs) simp_all

lemma errStr_loop_Some:
  "errStr_loop (map Some ms) acc =
     Return (acc @ concat (map (\<lambda>m. [CHR 0x09] @ '' Error: '' @ Itoa (Code m) @ '': '' @ Message m) ms))"
  by (induction ms arbitrary: acc) simp_all

lemma errStr_loop_None:
  "None \<in> set errs \<Longrightarrow> errStr_loop errs acc = Panic"
  by (induction errs acc rule: errStr_loop.induct) auto

lemma unwrap_reports_messages:
  assumes "Errors r = map Some ms" and "Status r \<noteq> ''success''" and "ms \<noteq> []"
  shows "\<exists>text. unwrap r = Return (Inl (Err text)) \<and>
           (\<forall>m \<in> set ms. sublist (Itoa (Code m)) text \<and> sublist (Message m) text)"
proof -
  let ?line = "\<lambda>m. [CHR 0x09] @ '' Error: '' @ Itoa (Code m) @ '': '' @ Message m"
  let ?text = "''API Error '' @ [CHR 0x0A] @ concat (map ?line ms)"
  have "unwrap r = Return (Inl (Err ?text))"
    using assms by (simp add: unwrap_def errStr_loop_Some)
  moreover have "sublist (Itoa (Code m)) ?text \<and> sublist (Message m) ?text"
    if "m \<in> set ms" for m
  proof -
    from that obtain before after where "ms = before @ m # after"
      by (auto dest: split_list)
    then have split: "?text = (''API Error '' @ [CHR 0x0A] @ concat (map ?line before)) @
                         ?line m @ concat (map ?line after)"
      by simp
    have "?text = (''API Error '' @ [CHR 0x0A] @ concat (map ?line before) @ [CHR 0x09] @ '' Error: '')
                    @ Itoa (Code m) @ ('': '' @ Message m @ concat (map ?line after))"
      unfolding split by simp
    then have code: "sublist (Itoa (Code m)) ?text"
      unfolding sublist_def by blast
    have "?text = (''API Error '' @ [CHR 0x0A] @ concat (map ?line before) @ [CHR 0x09] @ '' Error: ''
                    @ Itoa (Code m) @ '': '') @ Message m @ concat (map ?line after)"
      unfolding split by simp
    then have "sublist (Message m) ?text"
      unfolding sublist_def by blast
    with code show ?thesis by blast
  qed
  ultimately show ?thesis by blast
qed

lemma unwrap_other_cases:
  "Status r = ''success'' \<Longrightarrow> unwrap r = Return (Inr (resp_Data r))"
  "Status r \<noteq> ''success'' \<Longrightarrow> Errors r = [] \<Longrightarrow> unwrap r = Return (Inl (Err ''API error''))"
  "Status r \<noteq> ''success'' \<Longrightarrow> None \<in> set (Errors r) \<Longrightarrow> unwrap r = Panic"
  by (auto simp: unwrap_def errStr_loop_None)

section \<open>The derived record name\<close>

text \<open>
  Claim C5. For every fqdn and zone, the derived relative record name is the fqdn with
  its trailing dot removed first and the suffix made of a dot and the zone's name stripped
  next; \<open>findTxtRecord\<close> looks that name up. For the zone \<open>example.com\<close> and the fqdn
  \<open>_acme-challenge.example.com.\<close> the derived name is \<open>_acme-challenge\<close>.
\<close>

theorem recordName_derivation:
  "recordName zone fqdn =
     (let unqualified = (if fqdn \<noteq> [] \<and> last fqdn = CHR ''.'' then butlast fqdn else fqdn);
          zoneSuffix = ''.'' @ zone_Name (Zone zone)
      in if suffix zoneSuffix unqualified
         then take (length unqualified - length zoneSuffix) unqualified
         else unqualified)
   \<and> recordName zone (name @ ''.'' @ zone_Name (Zone zone) @ ''.'') = name
   \<and> fst (findTxtRecord zone fqdn) =
       find (\<lambda>rec. Name rec = recordName zone fqdn) (zone_Records (Zone zone))
   \<and> recordName \<lparr>Zone = \<lparr>zone_ID = i, zone_Name = ''example.com'', zone_Records = rs\<rparr>\<rparr>
        ''_acme-challenge.example.com.'' = ''_acme-challenge''"
proof -
  have two_steps: "recordName zone fqdn =
     (let unqualified = (if fqdn \<noteq> [] \<and> last fqdn = CHR ''.'' then butlast fqdn else fqdn);
          zoneSuffix = ''.'' @ zone_Name (Zone zone)
      in if suffix zoneSuffix unqualified
         then take (length unqualified - length zoneSuffix) unqualified
         else unqualified)"
    by (simp add: recordName_def TrimSuffix_def HasSuffix_iff UnFqdn_spec Let_def)
  have "UnFqdn (name @ ''.'' @ zone_Name (Zone zone) @ ''.'') = name @ ''.'' @ zone_Name (Zone zone)"
    using UnFqdn_dot [of "name @ ''.'' @ zone_Name (Zone zone)"] by simp
  then have strip: "recordName zone (name @ ''.'' @ zone_Name (Zone zone) @ ''.'') = name"
    using TrimSuffix_append [of name "''.'' @ zone_Name (Zone zone)"]
    by (simp add: recordName_def)
  have lookup: "fst (findTxtRecord zone fqdn) =
       find (\<lambda>rec. Name rec = recordName zone fqdn) (zone_Records (Zone zone))"
    by (simp add: findTxtRecord_def findTxtRecord_loop_find split: option.splits)
  have example: "recordName \<lparr>Zone = \<lparr>zone_ID = i, zone_Name = ''example.com'', zone_Records = rs\<rparr>\<rparr>
        ''_acme-challenge.example.com.'' = ''_acme-challenge''"
    by (simp add: recordName_def UnFqdn_def TrimSuffix_def HasSuffix_def)
  from two_steps strip lookup example show ?thesis by blast
qed

theorem recordName_derivation_witness:
  "recordName (fixture_zone []) ''www.example.com.'' = ''www''
   \<and> recordName (fixture_zone []) ''www.example.com'' = ''www''"
  using recordName_derivation [of "fixture_zone []" "''www.example.com.''" "''www''"]
    recordName_derivation [of "fixture_zone []" "''www.example.com''" "''www''"]
  by (simp add: fixture_zone_def suffix_def)

text \<open>
  Claim C10. When the fqdn without its trailing dot does not end in a dot followed by the
  zone's name, nothing is stripped: the derived relative name is the whole unqualified
  fqdn, the lookup, the create request and the delete requests use that name, and
  \<open>Present\<close> and \<open>CleanUp\<close> go on with it; with no record of that name \<open>Present\<close> succeeds
  exactly when its create request does.
\<close>

theorem recordName_without_zone_suffix:
  assumes "\<not> suffix (''.'' @ zone_Name (Zone zone)) (UnFqdn fqdn)"
  shows "recordName zone fqdn = UnFqdn fqdn
     \<and> fst (findTxtRecord zone fqdn) =
         find (\<lambda>rec. Name rec = UnFqdn fqdn) (zone_Records (Zone zone))
     \<and> (getHostedZone env c fqdn w = (Return (Inr zone), w1) \<longrightarrow>
          issued w1 (snd (Present env c domain fqdn value w)) =
            (case find (\<lambda>rec. Name rec = UnFqdn fqdn) (zone_Records (Zone zone)) of
               None \<Rightarrow> [newRequest env c ''POST'' ''/dns/zones/records/add''
                          (add_document (zone_Name (Zone zone)) (UnFqdn fqdn) value)]
             | Some found \<Rightarrow>
                 if Data found = value then []
                 else if succeeded (fst (makeRequest env c ''DELETE'' ''/dns/zones/records/delete''
                            (delete_document (zone_Name (Zone zone)) (UnFqdn fqdn)) w1))
                 then [newRequest env c ''DELETE'' ''/dns/zones/records/delete''
                         (delete_document (zone_Name (Zone zone)) (UnFqdn fqdn)),
                       newRequest env c ''POST'' ''/dns/zones/records/add''
                         (add_document (zone_Name (Zone zone)) (UnFqdn fqdn) value)]
                 else [newRequest env c ''DELETE'' ''/dns/zones/records/delete''
                         (delete_document (zone_Name (Zone zone)) (UnFqdn fqdn))])
          \<and> issued w1 (snd (CleanUp env c domain fqdn value w)) =
            (case find (\<lambda>rec. Name rec = UnFqdn fqdn) (zone_Records (Zone zone)) of
               None \<Rightarrow> []
             | Some found \<Rightarrow> [newRequest env c ''DELETE'' ''/dns/zones/records/delete''
                                 (delete_document (zone_Name (Zone zone)) (UnFqdn fqdn))])
          \<and> (find (\<lambda>rec. Name rec = UnFqdn fqdn) (zone_Records (Zone zone)) = None \<longrightarrow>
               (fst (Present env c domain fqdn value w) = Return None \<longleftrightarrow>
                succeeded (fst (makeRequest env c ''POST'' ''/dns/zones/records/add''
                           (add_document (zone_Name (Zone zone)) (UnFqdn fqdn) value) w1)))))"
proof -
  have name: "recordName zone fqdn = UnFqdn fqdn"
    using assms by (simp add: recordName_def TrimSuffix_no_suffix)
  have lookup: "fst (findTxtRecord zone fqdn) =
         find (\<lambda>rec. Name rec = UnFqdn fqdn) (zone_Records (Zone zone))"
    by (simp add: findTxtRecord_def findTxtRecord_loop_find name split: option.splits)
  have runs: "issued w1 (snd (Present env c domain fqdn value w)) =
            (case find (\<lambda>rec. Name rec = UnFqdn fqdn) (zone_Records (Zone zone)) of
               None \<Rightarrow> [newRequest env c ''POST'' ''/dns/zones/records/add''
                          (add_document (zone_Name (Zone zone)) (UnFqdn fqdn) value)]
             | Some found \<Rightarrow>
                 if Data found = value then []
                 else if succeeded (fst (makeRequest env c ''DELETE'' ''/dns/zones/records/delete''
                            (delete_document (zone_Name (Zone zone)) (UnFqdn fqdn)) w1))
                 then [newRequest env c ''DELETE'' ''/dns/zones/records/delete''
                         (delete_document (zone_Name (Zone zone)) (UnFqdn fqdn)),
                       newRequest env c ''POST'' ''/dns/zones/records/add''
                         (add_document (zone_Name (Zone zone)) (UnFqdn fqdn) value)]
                 else [newRequest env c ''DELETE'' ''/dns/zones/records/delete''
                         (delete_document (zone_Name (Zone zone)) (UnFqdn fqdn))])
          \<and> issued w1 (snd (CleanUp env c domain fqdn value w)) =
            (case find (\<lambda>rec. Name rec = UnFqdn fqdn) (zone_Records (Zone zone)) of
               None \<Rightarrow> []
             | Some found \<Rightarrow> [newRequest env c ''DELETE'' ''/dns/zones/records/delete''
                                 (delete_document (zone_Name (Zone zone)) (UnFqdn fqdn))])
          \<and> (find (\<lambda>rec. Name rec = UnFqdn fqdn) (zone_Records (Zone zone)) = None \<longrightarrow>
               (fst (Present env c domain fqdn value w) = Return None \<longleftrightarrow>
                succeeded (fst (makeRequest env c ''POST'' ''/dns/zones/records/add''
                           (add_document (zone_Name (Zone zone)) (UnFqdn fqdn) value) w1))))"
    if fetch: "getHostedZone env c fqdn w = (Return (Inr zone), w1)"
  proof -
    have p: "issued w1 (snd (Present env c domain fqdn value w)) =
            (case find (\<lambda>rec. Name rec = UnFqdn fqdn) (zone_Records (Zone zone)) of
               None \<Rightarrow> [newRequest env c ''POST'' ''/dns/zones/records/add''
                          (add_document (zone_Name (Zone zone)) (UnFqdn fqdn) value)]
             | Some found \<Rightarrow>
                 if Data found = value then []
                 else if succeeded (fst (makeRequest env c ''DELETE'' ''/dns/zones/records/delete''
                            (delete_document (zone_Name (Zone zone)) (UnFqdn fqdn)) w1))
                 then [newRequest env c ''DELETE'' ''/dns/zones/records/delete''
                         (delete_document (zone_Name (Zone zone)) (UnFqdn fqdn)),
                       newRequest env c ''POST'' ''/dns/zones/records/add''
                         (add_document (zone_Name (Zone zone)) (UnFqdn fqdn) value)]
                 else [newRequest env c ''DELETE'' ''/dns/zones/records/delete''
                         (delete_document (zone_Name (Zone zone)) (UnFqdn fqdn))])"
      using Present_sent_after_fetch [OF fetch, of domain "value", unfolded name]
      by (simp add: issued_def)
    have q: "issued w1 (snd (CleanUp env c domain fqdn value w)) =
            (case find (\<lambda>rec. Name rec = UnFqdn fqdn) (zone_Records (Zone zone)) of
               None \<Rightarrow> []
             | Some found \<Rightarrow> [newRequest env c ''DELETE'' ''/dns/zones/records/delete''
                                 (delete_document (zone_Name (Zone zone)) (UnFqdn fqdn))])"
      using CleanUp_sent_after_fetch [OF fetch, of domain "value", unfolded name]
      by (simp add: issued_def)
    have s: "fst (Present env c domain fqdn value w) = Return None \<longleftrightarrow>
                succeeded (fst (makeRequest env c ''POST'' ''/dns/zones/records/add''
                           (add_document (zone_Name (Zone zone)) (UnFqdn fqdn) value) w1))"
      if "find (\<lambda>rec. Name rec = UnFqdn fqdn) (zone_Records (Zone zone)) = None"
      using that by (simp add: Present_unfold [OF fetch] name Present_add_success)
    from p q s show ?thesis by blast
  qed
  from name lookup runs show ?thesis by blast
qed

theorem recordName_without_zone_suffix_witness:
  "\<not> suffix (''.'' @ zone_Name (Zone (fixture_zone []))) (UnFqdn ''_acme-challenge.other.org.'')
   \<and> recordName (fixture_zone []) ''_acme-challenge.other.org.'' = ''_acme-challenge.other.org''
   \<and> Present (fixture_env (fixture_zone [])) fixture_provider ''other.org''
        ''_acme-challenge.other.org.'' ''abc123'' (fixture_world [''zone'', ''ok'']) =
      (Return None,
       \<lparr>server = [],
        sent = [newRequest (fixture_env (fixture_zone [])) fixture_provider ''GET''
                  ''/dns/zones/show'' (JObject [(''zone'', JString ''example.com'')]),
                newRequest (fixture_env (fixture_zone [])) fixture_provider ''POST''
                  ''/dns/zones/records/add''
                  (add_document ''example.com'' ''_acme-challenge.other.org'' ''abc123'')]\<rparr>)"
proof -
  have unq: "UnFqdn ''_acme-challenge.other.org.'' = ''_acme-challenge.other.org''"
    by (simp add: UnFqdn_def)
  have no_suffix:
    "\<not> suffix (''.'' @ zone_Name (Zone (fixture_zone []))) (UnFqdn ''_acme-challenge.other.org.'')"
    unfolding unq by (simp add: fixture_zone_sel suffix_def)
  have fetch: "getHostedZone (fixture_env (fixture_zone [])) fixture_provider
                 ''_acme-challenge.other.org.'' (fixture_world [''zone'', ''ok'']) =
     (Return (Inr (fixture_zone [])),
      \<lparr>server = [''ok''],
       sent = [] @ [newRequest (fixture_env (fixture_zone [])) fixture_provider ''GET''
                     ''/dns/zones/show'' (JObject [(''zone'', JString ''example.com'')])]\<rparr>)"
    unfolding fixture_world_def by (rule fixture_getHostedZone) (simp add: fixture_coerce)
  from recordName_without_zone_suffix [OF no_suffix]
  have name: "recordName (fixture_zone []) ''_acme-challenge.other.org.'' =
                ''_acme-challenge.other.org''"
    unfolding unq by blast
  have "Present (fixture_env (fixture_zone [])) fixture_provider ''other.org''
        ''_acme-challenge.other.org.'' ''abc123'' (fixture_world [''zone'', ''ok'']) =
      (Return None,
       \<lparr>server = [],
        sent = [newRequest (fixture_env (fixture_zone [])) fixture_provider ''GET''
                  ''/dns/zones/show'' (JObject [(''zone'', JString ''example.com'')]),
                newRequest (fixture_env (fixture_zone [])) fixture_provider ''POST''
                  ''/dns/zones/records/add''
                  (add_document ''example.com'' ''_acme-challenge.other.org'' ''abc123'')]\<rparr>)"
    by (simp add: Present_unfold [OF fetch] name fixture_zone_sel Present_add_unfold
          fixture_makeRequest_ok)
  with no_suffix name show ?thesis by blast
qed

section \<open>Present\<close>

text \<open>
  The snapshot of this run holds two records named \<open>_acme-challenge\<close>; the second one
  carries the value asked for, the lookup stops at the first one, and \<open>Present\<close> sends a
  delete and an add request after the fetch.
\<close>

theorem Present_later_match_counterexample:
  "getHostedZone
      (fixture_env (fixture_zone [fixture_record ''_acme-challenge'' ''TXT'' ''old'',
                                  fixture_record ''_acme-challenge'' ''TXT'' ''abc123'']))
      fixture_provider ''_acme-challenge.example.com.'' (fixture_world [''zone'', ''ok'', ''ok''])
   = (Return (Inr (fixture_zone [fixture_record ''_acme-challenge'' ''TXT'' ''old'',
                                 fixture_record ''_acme-challenge'' ''TXT'' ''abc123''])),
      \<lparr>server = [''ok'', ''ok''],
       sent = [newRequest (fixture_env (fixture_zone [fixture_record ''_acme-challenge'' ''TXT'' ''old'',
                                  fixture_record ''_acme-challenge'' ''TXT'' ''abc123'']))
                 fixture_provider ''GET'' ''/dns/zones/show''
                 (JObject [(''zone'', JString ''example.com'')])]\<rparr>)
   \<and> fixture_record ''_acme-challenge'' ''TXT'' ''abc123''
       \<in> set (zone_Records (Zone (fixture_zone [fixture_record ''_acme-challenge'' ''TXT'' ''old'',
                                  fixture_record ''_acme-challenge'' ''TXT'' ''abc123''])))
   \<and> Name (fixture_record ''_acme-challenge'' ''TXT'' ''abc123'') =
       recordName (fixture_zone [fixture_record ''_acme-challenge'' ''TXT'' ''old'',
                                  fixture_record ''_acme-challenge'' ''TXT'' ''abc123''])
         ''_acme-challenge.example.com.''
   \<and> Data (fixture_record ''_acme-challenge'' ''TXT'' ''abc123'') = ''abc123''
   \<and> map URL (sent (snd (Present
        (fixture_env (fixture_zone [fixture_record ''_acme-challenge'' ''TXT'' ''old'',
                                    fixture_record ''_acme-challenge'' ''TXT'' ''abc123'']))
        fixture_provider ''example.com'' ''_acme-challenge.example.com.'' ''abc123''
        (fixture_world [''zone'', ''ok'', ''ok''])))) =
      [APIURL @ ''/dns/zones/show'', APIURL @ ''/dns/zones/records/delete'',
       APIURL @ ''/dns/zones/records/add'']"
  by (simp add: fixture_world_def fixture_getHostedZone Present_unfold [OF fixture_getHostedZone] fixture_coerce
        fixture_recordName fixture_zone_sel fixture_record_sel fixture_makeRequest_ok
        Present_add_unfold newRequest_def)

text \<open>
  Claim C1, amended. For every call to \<open>Present\<close>, if the first record of the fetched
  snapshot whose name equals the derived relative name has data equal to the value,
  \<open>Present\<close> returns success at once: the only request of the call is the zone fetch, no
  delete and no add. Run again in the resulting state, with the snapshot fetched again
  unchanged, it does the same.
\<close>

theorem Present_first_match_equal:
  assumes "getHostedZone env c fqdn w = (Return (Inr zone), w1)"
    and "find (\<lambda>rec. Name rec = recordName zone fqdn) (zone_Records (Zone zone)) = Some found"
    and "Data found = value"
  shows "Present env c domain fqdn value w = (Return None, w1)
     \<and> (\<exists>authZone. issued w w1 =
           [newRequest env c ''GET'' ''/dns/zones/show''
              (JObject [(''zone'', JString (UnFqdn authZone))])])
     \<and> (\<forall>w2. getHostedZone env c fqdn w1 = (Return (Inr zone), w2) \<longrightarrow>
           Present env c domain fqdn value w1 = (Return None, w2)
           \<and> (\<exists>authZone. issued w1 w2 =
                 [newRequest env c ''GET'' ''/dns/zones/show''
                    (JObject [(''zone'', JString (UnFqdn authZone))])]))"
proof -
  have run: "Present env c domain fqdn value v = (Return None, v')
      \<and> (\<exists>authZone. issued v v' =
            [newRequest env c ''GET'' ''/dns/zones/show''
               (JObject [(''zone'', JString (UnFqdn authZone))])])"
    if fetch: "getHostedZone env c fqdn v = (Return (Inr zone), v')" for v v'
  proof -
    have "Present env c domain fqdn value v = (Return None, v')"
      using assms(2,3) by (simp add: Present_unfold [OF fetch])
    moreover obtain authZone where
      "sent v' = sent v @ [newRequest env c ''GET'' ''/dns/zones/show''
                              (JObject [(''zone'', JString (UnFqdn authZone))])]"
      using getHostedZone_Return [OF fetch] by blast
    then have "issued v v' = [newRequest env c ''GET'' ''/dns/zones/show''
                                (JObject [(''zone'', JString (UnFqdn authZone))])]"
      by (rule issued_step)
    ultimately show ?thesis by blast
  qed
  from run [OF assms(1)] run show ?thesis by blast
qed

theorem Present_first_match_equal_witness:
  "Present (fixture_env (fixture_zone [fixture_record ''www'' ''A'' ''192.0.2.1'',
                                       fixture_record ''_acme-challenge'' ''TXT'' ''abc123'']))
      fixture_provider ''example.com'' ''_acme-challenge.example.com.'' ''abc123''
      (fixture_world [''zone'', ''zone'']) =
   (Return None,
    \<lparr>server = [''zone''],
     sent = [newRequest (fixture_env (fixture_zone [fixture_record ''www'' ''A'' ''192.0.2.1'',
                                       fixture_record ''_acme-challenge'' ''TXT'' ''abc123'']))
               fixture_provider ''GET'' ''/dns/zones/show''
               (JObject [(''zone'', JString ''example.com'')])]\<rparr>)"
proof -
  let ?Z = "fixture_zone [fixture_record ''www'' ''A'' ''192.0.2.1'',
                          fixture_record ''_acme-challenge'' ''TXT'' ''abc123'']"
  have fetch: "getHostedZone (fixture_env ?Z) fixture_provider ''_acme-challenge.example.com.''
                 (fixture_world [''zone'', ''zone'']) =
     (Return (Inr ?Z),
      \<lparr>server = [''zone''],
       sent = [] @ [newRequest (fixture_env ?Z) fixture_provider ''GET'' ''/dns/zones/show''
                     (JObject [(''zone'', JString ''example.com'')])]\<rparr>)"
    unfolding fixture_world_def by (rule fixture_getHostedZone) (simp add: fixture_coerce)
  have first: "find (\<lambda>rec. Name rec = recordName ?Z ''_acme-challenge.example.com.'')
                 (zone_Records (Zone ?Z)) =
               Some (fixture_record ''_acme-challenge'' ''TXT'' ''abc123'')"
    by (simp add: fixture_recordName fixture_zone_sel fixture_record_sel)
  have same: "Data (fixture_record ''_acme-challenge'' ''TXT'' ''abc123'') = ''abc123''"
    by (simp add: fixture_record_sel)
  from Present_first_match_equal [OF fetch first same, of "''example.com''"]
  show ?thesis by simp
qed

text \<open>
  Two runs. In the first the snapshot holds a record of the name with data other than the
  value, behind one that carries the value: \<open>Present\<close> sends nothing after the fetch. In
  the second the provider rejects the delete request: no add request follows it.
\<close>

theorem Present_replace_counterexample:
  "fixture_record ''_acme-challenge'' ''TXT'' ''old''
      \<in> set (zone_Records (Zone (fixture_zone [fixture_record ''_acme-challenge'' ''TXT'' ''abc123'',
                                               fixture_record ''_acme-challenge'' ''TXT'' ''old''])))
   \<and> Name (fixture_record ''_acme-challenge'' ''TXT'' ''old'') =
       recordName (fixture_zone [fixture_record ''_acme-challenge'' ''TXT'' ''abc123'',
                                 fixture_record ''_acme-challenge'' ''TXT'' ''old''])
         ''_acme-challenge.example.com.''
   \<and> Data (fixture_record ''_acme-challenge'' ''TXT'' ''old'') \<noteq> ''abc123''
   \<and> map URL (sent (snd (Present
        (fixture_env (fixture_zone [fixture_record ''_acme-challenge'' ''TXT'' ''abc123'',
                                    fixture_record ''_acme-challenge'' ''TXT'' ''old'']))
        fixture_provider ''example.com'' ''_acme-challenge.example.com.'' ''abc123''
        (fixture_world [''zone'', ''ok'', ''ok''])))) =
      [APIURL @ ''/dns/zones/show'']
   \<and> map URL (sent (snd (Present
        (fixture_env (fixture_zone [fixture_record ''_acme-challenge'' ''TXT'' ''old'']))
        fixture_provider ''example.com'' ''_acme-challenge.example.com.'' ''abc123''
        (fixture_world [''zone'', ''invalid zone'', ''ok''])))) =
      [APIURL @ ''/dns/zones/show'', APIURL @ ''/dns/zones/records/delete'']"
  by (simp add: fixture_world_def Present_unfold [OF fixture_getHostedZone] fixture_coerce
        fixture_recordName fixture_zone_sel fixture_record_sel fixture_makeRequest_invalid
        newRequest_def)

text \<open>
  Claim C2, amended. For every call to \<open>Present\<close> where the first record of the snapshot
  whose name equals the derived relative name has data different from the value,
  \<open>Present\<close> issues after the fetch exactly one delete request to
  \<open>/dns/zones/records/delete\<close>; when that request succeeds, exactly one create request to
  \<open>/dns/zones/records/add\<close> follows it, and when it fails nothing follows. \<open>Present\<close>
  returns success exactly when both requests succeed.
\<close>

theorem Present_first_match_differs:
  assumes "getHostedZone env c fqdn w = (Return (Inr zone), w1)"
    and "find (\<lambda>rec. Name rec = recordName zone fqdn) (zone_Records (Zone zone)) = Some found"
    and "Data found \<noteq> value"
  shows
    "let del = delete_document (zone_Name (Zone zone)) (recordName zone fqdn);
         add = add_document (zone_Name (Zone zone)) (recordName zone fqdn) value;
         deleted = makeRequest env c ''DELETE'' ''/dns/zones/records/delete'' del w1;
         added = makeRequest env c ''POST'' ''/dns/zones/records/add'' add (snd deleted);
         result = Present env c domain fqdn value w
     in issued w1 (snd result) =
          (if succeeded (fst deleted)
           then [newRequest env c ''DELETE'' ''/dns/zones/records/delete'' del,
                 newRequest env c ''POST'' ''/dns/zones/records/add'' add]
           else [newRequest env c ''DELETE'' ''/dns/zones/records/delete'' del])
        \<and> (fst result = Return None \<longleftrightarrow> succeeded (fst deleted) \<and> succeeded (fst added))"
  using Present_sent_after_fetch [OF assms(1), of domain "value"]
    Present_result_after_delete [OF assms, of domain] assms(2,3)
  by (simp add: Let_def issued_def)

theorem Present_first_match_differs_witness:
  "Present (fixture_env (fixture_zone [fixture_record ''_acme-challenge'' ''TXT'' ''old'']))
      fixture_provider ''example.com'' ''_acme-challenge.example.com.'' ''abc123''
      (fixture_world [''zone'', ''ok'', ''ok'']) =
   (Return None,
    \<lparr>server = [],
     sent = [newRequest (fixture_env (fixture_zone [fixture_record ''_acme-challenge'' ''TXT'' ''old'']))
               fixture_provider ''GET'' ''/dns/zones/show''
               (JObject [(''zone'', JString ''example.com'')]),
             newRequest (fixture_env (fixture_zone [fixture_record ''_acme-challenge'' ''TXT'' ''old'']))
               fixture_provider ''DELETE'' ''/dns/zones/records/delete''
               (delete_document ''example.com'' ''_acme-challenge''),
             newRequest (fixture_env (fixture_zone [fixture_record ''_acme-challenge'' ''TXT'' ''old'']))
               fixture_provider ''POST'' ''/dns/zones/records/add''
               (add_document ''example.com'' ''_acme-challenge'' ''abc123'')]\<rparr>)"
proof -
  let ?Z = "fixture_zone [fixture_record ''_acme-challenge'' ''TXT'' ''old'']"
  let ?show = "newRequest (fixture_env ?Z) fixture_provider ''GET'' ''/dns/zones/show''
                     (JObject [(''zone'', JString ''example.com'')])"
  let ?P = "Present (fixture_env ?Z) fixture_provider ''example.com''
              ''_acme-challenge.example.com.'' ''abc123'' (fixture_world [''zone'', ''ok'', ''ok''])"
  have fetch: "getHostedZone (fixture_env ?Z) fixture_provider ''_acme-challenge.example.com.''
                 (fixture_world [''zone'', ''ok'', ''ok'']) =
     (Return (Inr ?Z), \<lparr>server = [''ok'', ''ok''], sent = [] @ [?show]\<rparr>)"
    unfolding fixture_world_def by (rule fixture_getHostedZone) (simp add: fixture_coerce)
  have first: "find (\<lambda>rec. Name rec = recordName ?Z ''_acme-challenge.example.com.'')
                 (zone_Records (Zone ?Z)) =
               Some (fixture_record ''_acme-challenge'' ''TXT'' ''old'')"
    by (simp add: fixture_recordName fixture_zone_sel fixture_record_sel)
  have differs: "Data (fixture_record ''_acme-challenge'' ''TXT'' ''old'') \<noteq> ''abc123''"
    by (simp add: fixture_record_sel)
  have "issued \<lparr>server = [''ok'', ''ok''], sent = [] @ [?show]\<rparr> (snd ?P) =
          [newRequest (fixture_env ?Z) fixture_provider ''DELETE'' ''/dns/zones/records/delete''
             (delete_document ''example.com'' ''_acme-challenge''),
           newRequest (fixture_env ?Z) fixture_provider ''POST'' ''/dns/zones/records/add''
             (add_document ''example.com'' ''_acme-challenge'' ''abc123'')]
        \<and> fst ?P = Return None"
    using Present_first_match_differs [OF fetch first differs, of "''example.com''"]
    by (simp add: Let_def fixture_recordName fixture_zone_sel fixture_makeRequest_ok)
  moreover have "?P = (Return None, \<lparr>server = [],
     sent = [?show,
             newRequest (fixture_env ?Z) fixture_provider ''DELETE'' ''/dns/zones/records/delete''
               (delete_document ''example.com'' ''_acme-challenge''),
             newRequest (fixture_env ?Z) fixture_provider ''POST'' ''/dns/zones/records/add''
               (add_document ''example.com'' ''_acme-challenge'' ''abc123'')]\<rparr>)"
    by (simp add: Present_unfold [OF fetch] fixture_recordName fixture_zone_sel
          fixture_record_sel fixture_makeRequest_ok Present_add_unfold)
  ultimately show ?thesis by simp
qed

section \<open>CleanUp\<close>

text \<open>
  Claim C4. For every call to \<open>CleanUp\<close>, if the fetched snapshot holds no record whose
  name equals the derived relative name, \<open>CleanUp\<close> returns success and the zone fetch is
  the only request of the call.
\<close>

theorem CleanUp_no_record:
  assumes "getHostedZone env c fqdn w = (Return (Inr zone), w1)"
    and "\<forall>rec \<in> set (zone_Records (Zone zone)). Name rec \<noteq> recordName zone fqdn"
  shows "CleanUp env c domain fqdn value w = (Return None, w1)
     \<and> (\<exists>authZone. issued w w1 =
           [newRequest env c ''GET'' ''/dns/zones/show''
              (JObject [(''zone'', JString (UnFqdn authZone))])])"
proof -
  have "find (\<lambda>rec. Name rec = recordName zone fqdn) (zone_Records (Zone zone)) = None"
    using assms(2) by (simp add: find_None_iff)
  then have "CleanUp env c domain fqdn value w = (Return None, w1)"
    by (simp add: CleanUp_unfold [OF assms(1)])
  moreover obtain authZone where
    "sent w1 = sent w @ [newRequest env c ''GET'' ''/dns/zones/show''
                            (JObject [(''zone'', JString (UnFqdn authZone))])]"
    using getHostedZone_Return [OF assms(1)] by blast
  then have "issued w w1 = [newRequest env c ''GET'' ''/dns/zones/show''
                              (JObject [(''zone'', JString (UnFqdn authZone))])]"
    by (rule issued_step)
  ultimately show ?thesis by blast
qed

theorem CleanUp_no_record_witness:
  "CleanUp (fixture_env (fixture_zone [fixture_record ''www'' ''A'' ''192.0.2.1'']))
      fixture_provider ''example.com'' ''_acme-challenge.example.com.'' ''abc123''
      (fixture_world [''zone'', ''ok'']) =
   (Return None,
    \<lparr>server = [''ok''],
     sent = [newRequest (fixture_env (fixture_zone [fixture_record ''www'' ''A'' ''192.0.2.1'']))
               fixture_provider ''GET'' ''/dns/zones/show''
               (JObject [(''zone'', JString ''example.com'')])]\<rparr>)"
proof -
  let ?Z = "fixture_zone [fixture_record ''www'' ''A'' ''192.0.2.1'']"
  have fetch: "getHostedZone (fixture_env ?Z) fixture_provider ''_acme-challenge.example.com.''
                 (fixture_world [''zone'', ''ok'']) =
     (Return (Inr ?Z),
      \<lparr>server = [''ok''],
       sent = [] @ [newRequest (fixture_env ?Z) fixture_provider ''GET'' ''/dns/zones/show''
                     (JObject [(''zone'', JString ''example.com'')])]\<rparr>)"
    unfolding fixture_world_def by (rule fixture_getHostedZone) (simp add: fixture_coerce)
  have absent: "\<forall>rec \<in> set (zone_Records (Zone ?Z)).
                  Name rec \<noteq> recordName ?Z ''_acme-challenge.example.com.''"
    by (simp add: fixture_recordName fixture_zone_sel fixture_record_sel)
  from CleanUp_no_record [OF fetch absent, of "''example.com''" "''abc123''"]
  show ?thesis by simp
qed

section \<open>The requests that change the zone\<close>

text \<open>
  A run of \<open>Present\<close> with a value that is not well-formed UTF-8, the single byte FF: the
  data member of the create request is U+FFFD, the bytes EF BF BD, and not the value.
\<close>

theorem create_request_ill_formed_counterexample:
  "sent (snd (Present (fixture_env (fixture_zone [])) fixture_provider
                ''example.com'' ''_acme-challenge.example.com.'' [CHR 0xFF]
                (fixture_world [''zone'', ''ok'']))) =
     [\<lparr>Method = ''GET'',
       URL = ''https://connect.nicapi.eu/api/v1/dns/zones/show'',
       Query = [(''authToken'', ''key'')],
       Header = [(''User-Agent'', ''cert-manager''), (''Content-Type'', ''application/json'')],
       Body = JObject [(''zone'', JString ''example.com'')]\<rparr>,
      \<lparr>Method = ''POST'',
       URL = ''https://connect.nicapi.eu/api/v1/dns/zones/records/add'',
       Query = [(''authToken'', ''key'')],
       Header = [(''User-Agent'', ''cert-manager''), (''Content-Type'', ''application/json'')],
       Body = JObject [(''zone'', JString ''example.com''),
                       (''records'',
                        JArray [JObject [(''name'', JString ''_acme-challenge''),
                                         (''ttl'', JString ''7200''),
                                         (''type'', JString ''TXT''),
                                         (''data'', JString [CHR 0xEF, CHR 0xBF, CHR 0xBD])]])]\<rparr>]
   \<and> [CHR 0xEF, CHR 0xBF, CHR 0xBD] \<noteq> [CHR 0xFF]"
proof -
  have run: "sent (snd (Present (fixture_env (fixture_zone [])) fixture_provider
                ''example.com'' ''_acme-challenge.example.com.'' [CHR 0xFF]
                (fixture_world [''zone'', ''ok'']))) =
     [newRequest (fixture_env (fixture_zone [])) fixture_provider ''GET''
        ''/dns/zones/show'' (JObject [(''zone'', JString ''example.com'')]),
      newRequest (fixture_env (fixture_zone [])) fixture_provider ''POST''
        ''/dns/zones/records/add''
        (add_document ''example.com'' ''_acme-challenge'' [CHR 0xFF])]"
    by (simp add: fixture_world_def Present_unfold [OF fixture_getHostedZone] fixture_coerce
          fixture_recordName fixture_zone_sel Present_add_unfold fixture_makeRequest_ok)
  have ff: "coerceUTF8 [CHR 0xFF] = [CHR 0xEF, CHR 0xBF, CHR 0xBD]"
    by (simp add: coerceUTF8.simps(2) runeLen_def)
  show ?thesis
    unfolding run
    by (simp add: add_document_def ff coerceUTF8_ascii newRequest_def APIURL_def
          fixture_env_def fixture_provider_def)
qed

text \<open>
  Claim C3, amended. Every create request issued by \<open>Present\<close> is a POST whose body
  carries the zone name, the derived relative name, the type \<open>TXT\<close>, the caller's value as
  data and the TTL \<open>7200\<close> as a string, which is what \<open>strconv.Itoa(120*60)\<close> yields; the
  name and the value are carried as \<open>json.Marshal\<close> encodes them, that is with every byte
  that is not part of well-formed UTF-8 replaced by U+FFFD, and so unchanged when they are
  ASCII. For the zone \<open>example.com\<close> without records, \<open>Present\<close> of
  \<open>_acme-challenge.example.com.\<close> with the value \<open>abc123\<close> sends one zone fetch and one add
  with name \<open>_acme-challenge\<close>, type \<open>TXT\<close>, data \<open>abc123\<close> and ttl \<open>7200\<close>, and succeeds.
\<close>

theorem create_request_shape:
  "(\<forall>r. r \<in> set (issued w (snd (Present env c domain fqdn value w)))
         \<and> URL r = APIURL @ ''/dns/zones/records/add'' \<longrightarrow>
       Method r = ''POST''
       \<and> (\<exists>zone w1. getHostedZone env c fqdn w = (Return (Inr zone), w1)
             \<and> Body r =
                 JObject [(''zone'', JString (zone_Name (Zone zone))),
                          (''records'',
                           JArray [JObject [(''name'', JString (coerceUTF8 (recordName zone fqdn))),
                                            (''ttl'', JString ''7200''),
                                            (''type'', JString ''TXT''),
                                            (''data'', JString (coerceUTF8 value))]])]))
   \<and> ((\<forall>ch \<in> set value. (of_char ch :: nat) < 0x80) \<longrightarrow> coerceUTF8 value = value)
   \<and> Itoa (120 * 60) = ''7200''
   \<and> Present (fixture_env (fixture_zone [])) fixture_provider
        ''example.com'' ''_acme-challenge.example.com.'' ''abc123''
        (fixture_world [''zone'', ''ok'']) =
      (Return None,
       \<lparr>server = [],
        sent = [\<lparr>Method = ''GET'',
                 URL = ''https://connect.nicapi.eu/api/v1/dns/zones/show'',
                 Query = [(''authToken'', ''key'')],
                 Header = [(''User-Agent'', ''cert-manager''),
                           (''Content-Type'', ''application/json'')],
                 Body = JObject [(''zone'', JString ''example.com'')]\<rparr>,
                \<lparr>Method = ''POST'',
                 URL = ''https://connect.nicapi.eu/api/v1/dns/zones/records/add'',
                 Query = [(''authToken'', ''key'')],
                 Header = [(''User-Agent'', ''cert-manager''),
                           (''Content-Type'', ''application/json'')],
                 Body = JObject [(''zone'', JString ''example.com''),
                                 (''records'',
                                  JArray [JObject [(''name'', JString ''_acme-challenge''),
                                                   (''ttl'', JString ''7200''),
                                                   (''type'', JString ''TXT''),
                                                   (''data'', JString ''abc123'')]])]\<rparr>]\<rparr>)"
proof -
  have every: "Method r = ''POST''
       \<and> (\<exists>zone w1. getHostedZone env c fqdn w = (Return (Inr zone), w1)
             \<and> Body r =
                 JObject [(''zone'', JString (zone_Name (Zone zone))),
                          (''records'',
                           JArray [JObject [(''name'', JString (coerceUTF8 (recordName zone fqdn))),
                                            (''ttl'', JString ''7200''),
                                            (''type'', JString ''TXT''),
                                            (''data'', JString (coerceUTF8 value))]])])"
    if "r \<in> set (issued w (snd (Present env c domain fqdn value w)))"
      and "URL r = APIURL @ ''/dns/zones/records/add''" for r
  proof -
    from Present_issued_cases [OF that(1)] that(2)
    obtain zone w1 where fetch: "getHostedZone env c fqdn w = (Return (Inr zone), w1)"
      and r: "r = newRequest env c ''POST'' ''/dns/zones/records/add''
                    (add_document (zone_Name (Zone zone)) (recordName zone fqdn) value)"
      by (auto simp: URL_newRequest)
    from r have "Method r = ''POST''"
      and "Body r = add_document (zone_Name (Zone zone)) (recordName zone fqdn) value"
      by (simp_all add: Method_newRequest Body_newRequest)
    with fetch add_document_fetched [OF fetch, of "recordName zone fqdn" "value"]
    show ?thesis by auto
  qed
  have ascii: "coerceUTF8 value = value" if "\<forall>ch \<in> set value. (of_char ch :: nat) < 0x80"
    using that by (rule coerceUTF8_ascii)
  have example: "Present (fixture_env (fixture_zone [])) fixture_provider
        ''example.com'' ''_acme-challenge.example.com.'' ''abc123''
        (fixture_world [''zone'', ''ok'']) =
      (Return None,
       \<lparr>server = [],
        sent = [newRequest (fixture_env (fixture_zone [])) fixture_provider ''GET''
                  ''/dns/zones/show'' (JObject [(''zone'', JString ''example.com'')]),
                newRequest (fixture_env (fixture_zone [])) fixture_provider ''POST''
                  ''/dns/zones/records/add''
                  (add_document ''example.com'' ''_acme-challenge'' ''abc123'')]\<rparr>)"
    by (simp add: fixture_world_def Present_unfold [OF fixture_getHostedZone] fixture_coerce
          fixture_recordName fixture_zone_sel Present_add_unfold fixture_makeRequest_ok)
  have closed: "Itoa (120 * 60) = ''7200''
   \<and> Present (fixture_env (fixture_zone [])) fixture_provider
        ''example.com'' ''_acme-challenge.example.com.'' ''abc123''
        (fixture_world [''zone'', ''ok'']) =
      (Return None,
       \<lparr>server = [],
        sent = [\<lparr>Method = ''GET'',
                 URL = ''https://connect.nicapi.eu/api/v1/dns/zones/show'',
                 Query = [(''authToken'', ''key'')],
                 Header = [(''User-Agent'', ''cert-manager''),
                           (''Content-Type'', ''application/json'')],
                 Body = JObject [(''zone'', JString ''example.com'')]\<rparr>,
                \<lparr>Method = ''POST'',
                 URL = ''https://connect.nicapi.eu/api/v1/dns/zones/records/add'',
                 Query = [(''authToken'', ''key'')],
                 Header = [(''User-Agent'', ''cert-manager''),
                           (''Content-Type'', ''application/json'')],
                 Body = JObject [(''zone'', JString ''example.com''),
                                 (''records'',
                                  JArray [JObject [(''name'', JString ''_acme-challenge''),
                                                   (''ttl'', JString ''7200''),
                                                   (''type'', JString ''TXT''),
                                                   (''data'', JString ''abc123'')]])]\<rparr>]\<rparr>)"
    unfolding example
    by (simp add: Itoa_7200_numeral add_document_def coerceUTF8_ascii newRequest_def
          APIURL_def fixture_env_def fixture_provider_def)
  from every ascii closed show ?thesis by blast
qed

theorem create_request_shape_witness:
  "newRequest (fixture_env (fixture_zone [])) fixture_provider ''POST''
       ''/dns/zones/records/add'' (add_document ''example.com'' ''_acme-challenge'' ''abc123'')
     \<in> set (issued (fixture_world [''zone'', ''ok''])
              (snd (Present (fixture_env (fixture_zone [])) fixture_provider
                      ''example.com'' ''_acme-challenge.example.com.'' ''abc123''
                      (fixture_world [''zone'', ''ok'']))))
   \<and> Body (newRequest (fixture_env (fixture_zone [])) fixture_provider ''POST''
       ''/dns/zones/records/add'' (add_document ''example.com'' ''_acme-challenge'' ''abc123'')) =
      JObject [(''zone'', JString ''example.com''),
               (''records'',
                JArray [JObject [(''name'', JString ''_acme-challenge''),
                                 (''ttl'', JString ''7200''),
                                 (''type'', JString ''TXT''),
                                 (''data'', JString ''abc123'')]])]"
proof -
  let ?E = "fixture_env (fixture_zone [])"
  let ?w = "fixture_world [''zone'', ''ok'']"
  let ?add = "newRequest ?E fixture_provider ''POST''
       ''/dns/zones/records/add'' (add_document ''example.com'' ''_acme-challenge'' ''abc123'')"
  have run: "sent (snd (Present ?E fixture_provider ''example.com''
                      ''_acme-challenge.example.com.'' ''abc123'' ?w)) =
      [newRequest ?E fixture_provider ''GET''
                  ''/dns/zones/show'' (JObject [(''zone'', JString ''example.com'')]), ?add]"
    by (simp add: fixture_world_def Present_unfold [OF fixture_getHostedZone] fixture_coerce
          fixture_recordName fixture_zone_sel Present_add_unfold fixture_makeRequest_ok)
  have member: "?add \<in> set (issued ?w (snd (Present ?E fixture_provider ''example.com''
                      ''_acme-challenge.example.com.'' ''abc123'' ?w)))"
    unfolding issued_def run by (simp add: fixture_world_def)
  have url: "URL ?add = APIURL @ ''/dns/zones/records/add''"
    by (rule URL_newRequest)
  have fetch: "getHostedZone ?E fixture_provider ''_acme-challenge.example.com.'' ?w =
      (Return (Inr (fixture_zone [])),
       \<lparr>server = [''ok''], sent = [] @ [newRequest ?E fixture_provider ''GET''
                  ''/dns/zones/show'' (JObject [(''zone'', JString ''example.com'')])]\<rparr>)"
    unfolding fixture_world_def by (rule fixture_getHostedZone) (simp add: fixture_coerce)
  from create_request_shape [of ?w ?E fixture_provider "''example.com''"
      "''_acme-challenge.example.com.''" "''abc123''"] member url
  have "\<exists>zone w1. getHostedZone ?E fixture_provider ''_acme-challenge.example.com.'' ?w =
            (Return (Inr zone), w1)
        \<and> Body ?add =
                 JObject [(''zone'', JString (zone_Name (Zone zone))),
                          (''records'',
                           JArray [JObject [(''name'', JString (coerceUTF8 (recordName zone
                                               ''_acme-challenge.example.com.''))),
                                            (''ttl'', JString ''7200''),
                                            (''type'', JString ''TXT''),
                                            (''data'', JString (coerceUTF8 ''abc123''))]])]"
    by blast
  with fetch member show ?thesis
    by (auto simp: fixture_recordName fixture_zone_sel coerceUTF8_ascii)
qed

text \<open>
  The delete request of \<open>CleanUp\<close> and of \<open>Present\<close> in a run: its method is DELETE, and
  the record of its body has, next to the name, the members \<open>type\<close> and \<open>data\<close> with empty
  strings.
\<close>

theorem delete_method_counterexample:
  "sent (snd (CleanUp (fixture_env (fixture_zone [fixture_record ''_acme-challenge'' ''TXT'' ''old'']))
      fixture_provider ''example.com'' ''_acme-challenge.example.com.'' ''abc123''
      (fixture_world [''zone'', ''ok'']))) =
     [\<lparr>Method = ''GET'',
       URL = ''https://connect.nicapi.eu/api/v1/dns/zones/show'',
       Query = [(''authToken'', ''key'')],
       Header = [(''User-Agent'', ''cert-manager''), (''Content-Type'', ''application/json'')],
       Body = JObject [(''zone'', JString ''example.com'')]\<rparr>,
      \<lparr>Method = ''DELETE'',
       URL = ''https://connect.nicapi.eu/api/v1/dns/zones/records/delete'',
       Query = [(''authToken'', ''key'')],
       Header = [(''User-Agent'', ''cert-manager''), (''Content-Type'', ''application/json'')],
       Body = JObject [(''zone'', JString ''example.com''),
                       (''records'',
                        JArray [JObject [(''name'', JString ''_acme-challenge''),
                                         (''type'', JString []),
                                         (''data'', JString [])]])]\<rparr>]
   \<and> map Method (sent (snd (Present
        (fixture_env (fixture_zone [fixture_record ''_acme-challenge'' ''TXT'' ''old'']))
        fixture_provider ''example.com'' ''_acme-challenge.example.com.'' ''abc123''
        (fixture_world [''zone'', ''ok'', ''ok''])))) = [''GET'', ''DELETE'', ''POST'']
   \<and> ''DELETE'' \<noteq> ''POST''"
proof -
  let ?E = "fixture_env (fixture_zone [fixture_record ''_acme-challenge'' ''TXT'' ''old''])"
  have cleanup: "sent (snd (CleanUp ?E fixture_provider ''example.com''
        ''_acme-challenge.example.com.'' ''abc123'' (fixture_world [''zone'', ''ok'']))) =
     [newRequest ?E fixture_provider ''GET'' ''/dns/zones/show''
        (JObject [(''zone'', JString ''example.com'')]),
      newRequest ?E fixture_provider ''DELETE'' ''/dns/zones/records/delete''
        (delete_document ''example.com'' ''_acme-challenge'')]"
    by (simp add: fixture_world_def CleanUp_unfold [OF fixture_getHostedZone] fixture_coerce
          fixture_recordName fixture_zone_sel fixture_record_sel fixture_makeRequest_ok)
  have present: "sent (snd (Present ?E fixture_provider ''example.com''
        ''_acme-challenge.example.com.'' ''abc123'' (fixture_world [''zone'', ''ok'', ''ok'']))) =
     [newRequest ?E fixture_provider ''GET'' ''/dns/zones/show''
        (JObject [(''zone'', JString ''example.com'')]),
      newRequest ?E fixture_provider ''DELETE'' ''/dns/zones/records/delete''
        (delete_document ''example.com'' ''_acme-challenge''),
      newRequest ?E fixture_provider ''POST'' ''/dns/zones/records/add''
        (add_document ''example.com'' ''_acme-challenge'' ''abc123'')]"
    by (simp add: fixture_world_def Present_unfold [OF fixture_getHostedZone] fixture_coerce
          Present_add_unfold fixture_recordName fixture_zone_sel fixture_record_sel
          fixture_makeRequest_ok)
  show ?thesis
    unfolding cleanup present
    by (simp add: newRequest_def delete_document_def coerceUTF8_ascii APIURL_def
          fixture_env_def fixture_provider_def)
qed

text \<open>
  Claim C7, amended. Every delete request issued by \<open>Present\<close> or \<open>CleanUp\<close> is sent with
  the HTTP method DELETE to the path \<open>/dns/zones/records/delete\<close>; its body carries the zone
  name and one record, made of the relative name and of the members \<open>type\<close> and \<open>data\<close>,
  both the empty string.
\<close>

theorem delete_request_shape:
  assumes "r \<in> set (issued w (snd (Present env c domain fqdn value w)))
           \<or> r \<in> set (issued w (snd (CleanUp env c domain fqdn value w)))"
    and "URL r = APIURL @ ''/dns/zones/records/delete''"
  shows "Method r = ''DELETE''
     \<and> (\<exists>zone w1. getHostedZone env c fqdn w = (Return (Inr zone), w1)
           \<and> Body r =
               JObject [(''zone'', JString (zone_Name (Zone zone))),
                        (''records'',
                         JArray [JObject [(''name'', JString (recordName zone fqdn)),
                                          (''type'', JString []),
                                          (''data'', JString [])]])])"
proof -
  have "\<exists>zone w1. getHostedZone env c fqdn w = (Return (Inr zone), w1) \<and>
          r = newRequest env c ''DELETE'' ''/dns/zones/records/delete''
                (delete_document (zone_Name (Zone zone)) (recordName zone fqdn)) \<and>
          find (\<lambda>rec. Name rec = recordName zone fqdn) (zone_Records (Zone zone)) \<noteq> None"
    using assms(1)
  proof
    assume "r \<in> set (issued w (snd (Present env c domain fqdn value w)))"
    from Present_issued_cases [OF this] assms(2) show ?thesis
      by (auto simp: URL_newRequest)
  next
    assume "r \<in> set (issued w (snd (CleanUp env c domain fqdn value w)))"
    from CleanUp_issued_cases [OF this] assms(2) show ?thesis
      by (auto simp: URL_newRequest)
  qed
  then obtain zone w1 where fetch: "getHostedZone env c fqdn w = (Return (Inr zone), w1)"
    and r: "r = newRequest env c ''DELETE'' ''/dns/zones/records/delete''
                  (delete_document (zone_Name (Zone zone)) (recordName zone fqdn))"
    and found: "find (\<lambda>rec. Name rec = recordName zone fqdn) (zone_Records (Zone zone)) \<noteq> None"
    by blast
  from r have "Method r = ''DELETE''"
    and "Body r = delete_document (zone_Name (Zone zone)) (recordName zone fqdn)"
    by (simp_all add: Method_newRequest Body_newRequest)
  with fetch delete_document_found [OF fetch found] show ?thesis by auto
qed

theorem delete_request_shape_witness:
  "newRequest (fixture_env (fixture_zone [fixture_record ''_acme-challenge'' ''TXT'' ''old'']))
       fixture_provider ''DELETE'' ''/dns/zones/records/delete''
       (delete_document ''example.com'' ''_acme-challenge'')
     \<in> set (issued (fixture_world [''zone'', ''ok''])
              (snd (CleanUp (fixture_env (fixture_zone [fixture_record ''_acme-challenge'' ''TXT'' ''old'']))
                      fixture_provider ''example.com'' ''_acme-challenge.example.com.'' ''abc123''
                      (fixture_world [''zone'', ''ok'']))))
   \<and> Method (newRequest (fixture_env (fixture_zone [fixture_record ''_acme-challenge'' ''TXT'' ''old'']))
       fixture_provider ''DELETE'' ''/dns/zones/records/delete''
       (delete_document ''example.com'' ''_acme-challenge'')) = ''DELETE''"
proof -
  let ?E = "fixture_env (fixture_zone [fixture_record ''_acme-challenge'' ''TXT'' ''old''])"
  let ?w = "fixture_world [''zone'', ''ok'']"
  let ?del = "newRequest ?E fixture_provider ''DELETE'' ''/dns/zones/records/delete''
       (delete_document ''example.com'' ''_acme-challenge'')"
  have run: "sent (snd (CleanUp ?E fixture_provider ''example.com''
                      ''_acme-challenge.example.com.'' ''abc123'' ?w)) =
      [newRequest ?E fixture_provider ''GET''
                  ''/dns/zones/show'' (JObject [(''zone'', JString ''example.com'')]), ?del]"
    by (simp add: fixture_world_def CleanUp_unfold [OF fixture_getHostedZone] fixture_coerce
          fixture_recordName fixture_zone_sel fixture_record_sel fixture_makeRequest_ok)
  have member: "?del \<in> set (issued ?w (snd (CleanUp ?E fixture_provider ''example.com''
                      ''_acme-challenge.example.com.'' ''abc123'' ?w)))"
    unfolding issued_def run by (simp add: fixture_world_def)
  have url: "URL ?del = APIURL @ ''/dns/zones/records/delete''"
    by (rule URL_newRequest)
  from delete_request_shape [OF disjI2 [OF member] url] member
  show ?thesis by blast
qed

section \<open>Lookup by name\<close>

text \<open>
  Claim C8. Lookup and deletion are keyed by name alone: \<open>findTxtRecord\<close> returns the first
  record of the zone's list whose name equals the derived relative name, whatever the
  types and data of the records are, and \<open>CleanUp\<close> deletes such a record without
  comparing its data with the value it is given.
\<close>

theorem lookup_and_delete_by_name:
  "findTxtRecord zone fqdn =
     (case find (\<lambda>rec. Name rec = recordName zone fqdn) (zone_Records (Zone zone)) of
        None \<Rightarrow> (None, Some errNoExistingRecord)
      | Some rec \<Rightarrow> (Some rec, None))
   \<and> fst (findTxtRecord
           \<lparr>Zone = \<lparr>zone_ID = zone_ID (Zone zone), zone_Name = zone_Name (Zone zone),
                    zone_Records = map (\<lambda>r. r\<lparr>Type := ty r, Data := da r\<rparr>)
                                     (zone_Records (Zone zone))\<rparr>\<rparr> fqdn) =
       map_option (\<lambda>r. r\<lparr>Type := ty r, Data := da r\<rparr>) (fst (findTxtRecord zone fqdn))
   \<and> CleanUp env c domain fqdn value w = CleanUp env c domain' fqdn value' w
   \<and> (getHostedZone env c fqdn w = (Return (Inr zone), w1)
        \<and> find (\<lambda>rec. Name rec = recordName zone fqdn) (zone_Records (Zone zone)) = Some found \<longrightarrow>
       issued w1 (snd (CleanUp env c domain fqdn value w)) =
         [newRequest env c ''DELETE'' ''/dns/zones/records/delete''
            (delete_document (zone_Name (Zone zone)) (recordName zone fqdn))])"
proof -
  have first: "findTxtRecord zone fqdn =
     (case find (\<lambda>rec. Name rec = recordName zone fqdn) (zone_Records (Zone zone)) of
        None \<Rightarrow> (None, Some errNoExistingRecord)
      | Some rec \<Rightarrow> (Some rec, None))"
    by (simp add: findTxtRecord_def findTxtRecord_loop_find)
  have retag: "fst (findTxtRecord
           \<lparr>Zone = \<lparr>zone_ID = zone_ID (Zone zone), zone_Name = zone_Name (Zone zone),
                    zone_Records = map (\<lambda>r. r\<lparr>Type := ty r, Data := da r\<rparr>)
                                     (zone_Records (Zone zone))\<rparr>\<rparr> fqdn) =
       map_option (\<lambda>r. r\<lparr>Type := ty r, Data := da r\<rparr>) (fst (findTxtRecord zone fqdn))"
    by (simp add: findTxtRecord_def recordName_def findTxtRecord_loop_retag)
  have any_value: "CleanUp env c domain fqdn value w = CleanUp env c domain' fqdn value' w"
    by (simp add: CleanUp_def)
  have deletes: "issued w1 (snd (CleanUp env c domain fqdn value w)) =
         [newRequest env c ''DELETE'' ''/dns/zones/records/delete''
            (delete_document (zone_Name (Zone zone)) (recordName zone fqdn))]"
    if "getHostedZone env c fqdn w = (Return (Inr zone), w1)"
      and "find (\<lambda>rec. Name rec = recordName zone fqdn) (zone_Records (Zone zone)) = Some found"
    using CleanUp_sent_after_fetch [OF that(1), of domain "value"] that(2)
    by (simp add: issued_def)
  from first retag any_value deletes show ?thesis by blast
qed

theorem lookup_and_delete_by_name_witness:
  "issued \<lparr>server = [''ok''],
           sent = [newRequest (fixture_env (fixture_zone [fixture_record ''www'' ''A'' ''192.0.2.1'',
                      fixture_record ''_acme-challenge'' ''CNAME'' ''elsewhere'',
                      fixture_record ''_acme-challenge'' ''TXT'' ''abc123'']))
                     fixture_provider ''GET'' ''/dns/zones/show''
                     (JObject [(''zone'', JString ''example.com'')])]\<rparr>
     (snd (CleanUp (fixture_env (fixture_zone [fixture_record ''www'' ''A'' ''192.0.2.1'',
                      fixture_record ''_acme-challenge'' ''CNAME'' ''elsewhere'',
                      fixture_record ''_acme-challenge'' ''TXT'' ''abc123'']))
             fixture_provider ''example.com'' ''_acme-challenge.example.com.'' ''abc123''
             (fixture_world [''zone'', ''ok'']))) =
     [newRequest (fixture_env (fixture_zone [fixture_record ''www'' ''A'' ''192.0.2.1'',
                      fixture_record ''_acme-challenge'' ''CNAME'' ''elsewhere'',
                      fixture_record ''_acme-challenge'' ''TXT'' ''abc123'']))
        fixture_provider ''DELETE'' ''/dns/zones/records/delete''
        (delete_document ''example.com'' ''_acme-challenge'')]
   \<and> findTxtRecord (fixture_zone [fixture_record ''www'' ''A'' ''192.0.2.1'',
                      fixture_record ''_acme-challenge'' ''CNAME'' ''elsewhere'',
                      fixture_record ''_acme-challenge'' ''TXT'' ''abc123''])
        ''_acme-challenge.example.com.'' =
      (Some (fixture_record ''_acme-challenge'' ''CNAME'' ''elsewhere''), None)"
proof -
  let ?Z = "fixture_zone [fixture_record ''www'' ''A'' ''192.0.2.1'',
                      fixture_record ''_acme-challenge'' ''CNAME'' ''elsewhere'',
                      fixture_record ''_acme-challenge'' ''TXT'' ''abc123'']"
  have fetch: "getHostedZone (fixture_env ?Z) fixture_provider ''_acme-challenge.example.com.''
                 (fixture_world [''zone'', ''ok'']) =
     (Return (Inr ?Z),
      \<lparr>server = [''ok''],
       sent = [] @ [newRequest (fixture_env ?Z) fixture_provider ''GET'' ''/dns/zones/show''
                     (JObject [(''zone'', JString ''example.com'')])]\<rparr>)"
    unfolding fixture_world_def by (rule fixture_getHostedZone) (simp add: fixture_coerce)
  have first: "find (\<lambda>rec. Name rec = recordName ?Z ''_acme-challenge.example.com.'')
                 (zone_Records (Zone ?Z)) =
               Some (fixture_record ''_acme-challenge'' ''CNAME'' ''elsewhere'')"
    by (simp add: fixture_recordName fixture_zone_sel fixture_record_sel)
  from lookup_and_delete_by_name [of ?Z "''_acme-challenge.example.com.''" _ _
      "fixture_env ?Z" fixture_provider "''example.com''" "''abc123''"
      "fixture_world [''zone'', ''ok'']"] fetch first
  show ?thesis
    by (simp add: fixture_recordName fixture_zone_sel)
qed

text \<open>
  Claim C9. For every zone and fqdn, \<open>findTxtRecord\<close> returns either a record with a nil
  error or no record with the sentinel \<open>errNoExistingRecord\<close>, and no other error; so the
  condition of line 61 in \<open>Present\<close>, an error that is neither nil nor the sentinel, never
  holds and the return of line 63 is unreachable.
\<close>

theorem findTxtRecord_results:
  "((\<exists>rec. findTxtRecord zone fqdn = (Some rec, None))
      \<or> findTxtRecord zone fqdn = (None, Some errNoExistingRecord))
   \<and> \<not> (snd (findTxtRecord zone fqdn) \<noteq> None
          \<and> snd (findTxtRecord zone fqdn) \<noteq> Some errNoExistingRecord)"
  by (cases "find (\<lambda>rec. Name rec = recordName zone fqdn) (zone_Records (Zone zone))")
     (simp_all add: findTxtRecord_def findTxtRecord_loop_find)

theorem findTxtRecord_results_witness:
  "findTxtRecord (fixture_zone []) ''_acme-challenge.example.com.'' =
     (None, Some errNoExistingRecord)
   \<and> findTxtRecord (fixture_zone [fixture_record ''_acme-challenge'' ''TXT'' ''old''])
        ''_acme-challenge.example.com.'' =
     (Some (fixture_record ''_acme-challenge'' ''TXT'' ''old''), None)"
  using findTxtRecord_results [of "fixture_zone []" "''_acme-challenge.example.com.''"]
  by (simp add: findTxtRecord_def fixture_recordName fixture_zone_sel fixture_record_sel)

section \<open>The response envelope\<close>

text \<open>
  Claim C6. A decoded envelope whose status is not \<open>success\<close> is to make the request fail
  with an error that names the code and the text of every reported message, or with a
  generic error when none is reported, and a \<open>success\<close> envelope is to yield its payload.
  The code does so as long as every entry of the error list is a message
  (\<open>unwrap_reports_messages\<close>, \<open>unwrap_other_cases\<close>). An entry that is nil, which is what
  the decoder makes of a JSON \<open>null\<close> in the list, is dereferenced at line 265: for the
  envelope below the call panics and returns no error.
\<close>

theorem makeRequest_nil_error_entry:
  "unwrap \<lparr>ClientTransactionId = [], ServerTransactionId = ''tx'', Errors = [None],
           Warnings = [], Success = [], Status = ''error'', resp_Data = []\<rparr> = Panic
   \<and> fixture_Decode ''null'' =
       Inr \<lparr>ClientTransactionId = [], ServerTransactionId = ''tx'', Errors = [None],
           Warnings = [], Success = [], Status = ''error'', resp_Data = []\<rparr>
   \<and> fst (makeRequest (fixture_env (fixture_zone [])) fixture_provider ''GET''
             ''/dns/zones/show'' (JObject [(''zone'', JString ''example.com'')])
             (fixture_world [''null''])) = Panic"
  by (simp add: unwrap_def fixture_Decode_def fixture_envelope_def fixture_world_def
        fixture_makeRequest_null)

end
